theory Spec2Isabelle
  imports Main "HOL-Library.AList" "HOL-Library.Sublist" "HOL-Library.Multiset"
begin

unbundle bit_operations_syntax

section \<open>Values, exceptions and the environment of \<open>preprocess.py\<close>\<close>

text \<open>
  The values the program handles all come out of \<open>json.load\<close> and \<open>json.loads\<close>:
  \<open>None\<close>, booleans, integers, strings, lists and dictionaries with string keys. A
  dictionary is the list of its items in insertion order. JSON numbers with a fraction or an
  exponent (Python floats) are left out of the model.
\<close>

datatype json =
    JNull
  | JBool bool
  | JInt int
  | JString string
  | JArray "json list"
  | JObject "(string \<times> json) list"

text \<open>
  The exceptions that can be raised while \<open>process_posts\<close> runs. \<open>IOError\<close> is
  Python's \<open>OSError\<close>; \<open>FileNotFoundError\<close>, \<open>PermissionError\<close>,
  \<open>IsADirectoryError\<close> and \<open>NotADirectoryError\<close> are subclasses of it, and an
  \<open>except IOError\<close> catches them too. \<open>JSONDecodeError\<close> and \<open>UnicodeDecodeError\<close>
  are two unrelated subclasses of \<open>ValueError\<close>.
\<close>

datatype exn =
    FileNotFoundError
  | PermissionError
  | IsADirectoryError
  | NotADirectoryError
  | UnicodeDecodeError
  | RecursionError
  | ValueError
  | JSONDecodeError
  | OutputParserException string
  | KeyError string
  | TypeError
  | AttributeError
  | IOError

fun is_io_error :: "exn \<Rightarrow> bool" where
  "is_io_error IOError = True"
| "is_io_error FileNotFoundError = True"
| "is_io_error PermissionError = True"
| "is_io_error IsADirectoryError = True"
| "is_io_error NotADirectoryError = True"
| "is_io_error e = False"

text \<open>
  What the program prints, one constructor per \<open>print\<close> statement of the source, with
  the values that the f-string formats.
\<close>

datatype diag =
    ErrorReadingRawPosts exn
  | SkippingPost json
  | ErrorExtractingMetadata json exn
  | NoEnrichedPosts
  | ErrorUnifyingTags exn
  | ErrorWritingProcessedPosts exn
  | FailedToParsePost json string
  | FailedToParseUnifiedTags string

text \<open>The two chains \<open>pt | llm\<close> and the input each was invoked with.\<close>

datatype call = ExtractCall json | UnifyCall string

text \<open>
  The collaborators of the program, which are not part of its source: the JSON decoder and
  encoder of the standard library, the two prompt chains (the answer may depend on how many
  calls came before, since the oracle is not a function of its prompt), the order in which a
  Python set is iterated (given its elements in insertion order), whether opening a path
  for writing fails, and the exception that loading a path raises when the files of the
  world do not hold it.
\<close>

record pyenv =
  loads :: "string \<Rightarrow> json option"
  dumps :: "json \<Rightarrow> string"
  extract_chain :: "nat \<Rightarrow> json \<Rightarrow> string"
  unify_chain :: "nat \<Rightarrow> string \<Rightarrow> string"
  set_iter :: "json list \<Rightarrow> json list"
  open_fails :: "string \<Rightarrow> bool"
  load_fault :: "string \<Rightarrow> exn"

text \<open>
  The state a run reads and changes: the files, the printed lines, the oracle calls. The
  files are the paths that can be opened and read as UTF-8 text within the limits of the
  decoder, each with its text.
\<close>

record world =
  files :: "string \<Rightarrow> string option"
  stdout :: "diag list"
  llm_calls :: "call list"

datatype outcome = Returned | Raised exn

definition print :: "diag \<Rightarrow> world \<Rightarrow> world" where
  "print d W = W\<lparr>stdout := stdout W @ [d]\<rparr>"

section \<open>Python primitives used by the source\<close>

text \<open>\<open>s.find(c)\<close> for a one-character \<open>c\<close>: the first index, or \<open>-1\<close>.\<close>

fun py_find :: "char \<Rightarrow> string \<Rightarrow> int" where
  "py_find c [] = - 1"
| "py_find c (x # xs) =
     (if x = c then 0 else (let r = py_find c xs in if r < 0 then - 1 else r + 1))"

text \<open>\<open>s.rfind(c)\<close>: the last index, or \<open>-1\<close>.\<close>

definition py_rfind :: "char \<Rightarrow> string \<Rightarrow> int" where
  "py_rfind c s =
     (let r = py_find c (rev s) in if r < 0 then - 1 else int (length s) - 1 - r)"

text \<open>
  \<open>s[i:j]\<close>: a negative bound counts from the end, and both bounds are clamped to the
  sequence.
\<close>

definition py_bound :: "nat \<Rightarrow> int \<Rightarrow> nat" where
  "py_bound n i = (if i < 0 then nat (max (i + int n) 0) else min (nat i) n)"

definition py_slice :: "'a list \<Rightarrow> int \<Rightarrow> int \<Rightarrow> 'a list" where
  "py_slice s i j =
     (let lo = py_bound (length s) i; hi = py_bound (length s) j
      in take (hi - lo) (drop lo s))"

section \<open>\<open>clean_json_response\<close>\<close>

definition clean_json_response :: "pyenv \<Rightarrow> string \<Rightarrow> exn + json" where
  "clean_json_response E response =
     (let start = py_find (CHR ''{'') response;
          end = py_rfind (CHR ''}'') response + 1
      in case loads E (py_slice response start end) of
           Some v \<Rightarrow> Inr v
         | None \<Rightarrow> Inl (OutputParserException (''Invalid JSON content:\<newline>'' @ response)))"

section \<open>Python operations on decoded values\<close>

text \<open>
  Python is dynamically typed, and the values the program works on are whatever the posts
  file and the oracle's answers decode to. Each operation of the source is therefore defined
  on every value, with the exception Python raises where the operand has the wrong type.
\<close>

text \<open>\<open>for x in v\<close>: a dictionary yields its keys, a string its characters.\<close>

fun py_iter :: "json \<Rightarrow> exn + json list" where
  "py_iter (JArray xs) = Inr xs"
| "py_iter (JObject d) = Inr (map (\<lambda>kv. JString (fst kv)) d)"
| "py_iter (JString s) = Inr (map (\<lambda>c. JString [c]) s)"
| "py_iter v = Inl TypeError"

text \<open>\<open>k in s\<close> for two strings: \<open>k\<close> occurs in \<open>s\<close> as a substring.\<close>

fun py_in_str :: "string \<Rightarrow> string \<Rightarrow> bool" where
  "py_in_str k [] = (k = [])"
| "py_in_str k (c # cs) = (prefix k (c # cs) \<or> py_in_str k cs)"

text \<open>\<open>k in v\<close> for a string \<open>k\<close>: a key of a dictionary, an element of a list, a substring.\<close>

fun py_contains :: "string \<Rightarrow> json \<Rightarrow> exn + bool" where
  "py_contains k (JObject d) = Inr (k \<in> set (map fst d))"
| "py_contains k (JArray xs) = Inr (JString k \<in> set xs)"
| "py_contains k (JString s) = Inr (py_in_str k s)"
| "py_contains k v = Inl TypeError"

text \<open>\<open>v[k]\<close> for a string \<open>k\<close>: only a dictionary can be subscripted with a string.\<close>

fun py_getitem :: "json \<Rightarrow> string \<Rightarrow> exn + json" where
  "py_getitem (JObject d) k = (case map_of d k of Some v \<Rightarrow> Inr v | None \<Rightarrow> Inl (KeyError k))"
| "py_getitem v k = Inl TypeError"

text \<open>\<open>v[k] = x\<close> for a string \<open>k\<close>: a present key keeps its place, a new key goes last.\<close>

fun py_setitem :: "json \<Rightarrow> string \<Rightarrow> json \<Rightarrow> exn + json" where
  "py_setitem (JObject d) k x = Inr (JObject (AList.update k x d))"
| "py_setitem v k x = Inl TypeError"

text \<open>
  \<open>v[:100]\<close>. Slicing a dictionary raises \<open>TypeError\<close> up to Python 3.11 (and
  \<open>KeyError\<close> from 3.12 on, where slices are hashable); the model takes the former.
\<close>

fun py_take100 :: "json \<Rightarrow> exn + json" where
  "py_take100 (JString s) = Inr (JString (take 100 s))"
| "py_take100 (JArray xs) = Inr (JArray (take 100 xs))"
| "py_take100 v = Inl TypeError"

text \<open>
  \<open>a | b\<close>: for two dictionaries a new dictionary, \<open>a\<close> updated with the items of
  \<open>b\<close> in their order; for integers and booleans the bitwise or.
\<close>

definition dict_or :: "(string \<times> json) list \<Rightarrow> (string \<times> json) list \<Rightarrow> (string \<times> json) list" where
  "dict_or a b = fold (\<lambda>kv d. AList.update (fst kv) (snd kv) d) b a"

fun py_or :: "json \<Rightarrow> json \<Rightarrow> exn + json" where
  "py_or (JObject a) (JObject b) = Inr (JObject (dict_or a b))"
| "py_or (JBool a) (JBool b) = Inr (JBool (a \<or> b))"
| "py_or (JBool a) (JInt j) = Inr (JInt ((if a then 1 else 0) OR j))"
| "py_or (JInt i) (JBool b) = Inr (JInt (i OR (if b then 1 else 0)))"
| "py_or (JInt i) (JInt j) = Inr (JInt (i OR j))"
| "py_or a b = Inl TypeError"

text \<open>
  Sets. Lists and dictionaries are not hashable. \<open>True\<close> and \<open>1\<close> (and \<open>False\<close> and
  \<open>0\<close>) are equal and hash alike, so a set holds one of them only: the one added first.
  A set is the list of its elements in insertion order; \<open>set_iter\<close> of the environment
  gives the order of iteration.
\<close>

fun py_hashable :: "json \<Rightarrow> bool" where
  "py_hashable (JArray xs) = False"
| "py_hashable (JObject d) = False"
| "py_hashable v = True"

fun py_key :: "json \<Rightarrow> json" where
  "py_key (JBool b) = JInt (if b then 1 else 0)"
| "py_key v = v"

definition set_add :: "json \<Rightarrow> json list \<Rightarrow> json list" where
  "set_add v S = (if py_key v \<in> set (map py_key S) then S else S @ [v])"

text \<open>\<open>S.update(items)\<close>, the items already iterated.\<close>

fun set_update :: "json list \<Rightarrow> json list \<Rightarrow> exn + json list" where
  "set_update [] S = Inr S"
| "set_update (x # xs) S =
     (if py_hashable x then set_update xs (set_add x S) else Inl TypeError)"

text \<open>
  \<open>m.get(k, k)\<close>: only a dictionary has the method; the key is hashed; the keys of a
  decoded dictionary are strings, so no other key is found.
\<close>

fun py_get :: "json \<Rightarrow> json \<Rightarrow> exn + json" where
  "py_get (JObject d) (JString s) =
     Inr (case map_of d s of Some v \<Rightarrow> v | None \<Rightarrow> JString s)"
| "py_get (JObject d) k = (if py_hashable k then Inr k else Inl TypeError)"
| "py_get m k = Inl AttributeError"

text \<open>\<open>','.join(xs)\<close>: every item must be a string.\<close>

fun py_join :: "json list \<Rightarrow> exn + string" where
  "py_join [] = Inr []"
| "py_join [JString s] = Inr s"
| "py_join (JString s # xs) =
     (case py_join xs of Inl e \<Rightarrow> Inl e | Inr r \<Rightarrow> Inr (s @ '','' @ r))"
| "py_join (v # xs) = Inl TypeError"

fun is_parse_error :: "exn \<Rightarrow> bool" where
  "is_parse_error (OutputParserException m) = True"
| "is_parse_error e = False"

section \<open>\<open>extract_metadata\<close>\<close>

text \<open>
  One call of the extraction chain, logged; the answer goes through
  \<open>clean_json_response\<close>. The handler of \<open>OutputParserException\<close> prints the first
  hundred characters of the post and the answer, and raises the exception again; when the
  slice itself raises, that exception replaces it.
\<close>

definition extract_metadata :: "pyenv \<Rightarrow> json \<Rightarrow> world \<Rightarrow> (exn + json) \<times> world" where
  "extract_metadata E post W =
     (let response = extract_chain E (length (llm_calls W)) post;
          W1 = W\<lparr>llm_calls := llm_calls W @ [ExtractCall post]\<rparr>
      in case clean_json_response E response of
           Inr v \<Rightarrow> (Inr v, W1)
         | Inl e \<Rightarrow>
             if is_parse_error e then
               (case py_take100 post of
                  Inl e' \<Rightarrow> (Inl e', W1)
                | Inr p \<Rightarrow> (Inl e, print (FailedToParsePost p response) W1))
             else (Inl e, W1))"

section \<open>\<open>get_unified_tags\<close>\<close>

text \<open>The loop that gathers \<open>unique_tags\<close>.\<close>

fun collect_tags :: "json list \<Rightarrow> json list \<Rightarrow> exn + json list" where
  "collect_tags [] S = Inr S"
| "collect_tags (post # posts) S =
     (case py_getitem post ''tags'' of
        Inl e \<Rightarrow> Inl e
      | Inr tags \<Rightarrow>
          (case py_iter tags of
             Inl e \<Rightarrow> Inl e
           | Inr items \<Rightarrow>
               (case set_update items S of
                  Inl e \<Rightarrow> Inl e
                | Inr S' \<Rightarrow> collect_tags posts S')))"

definition get_unified_tags :: "pyenv \<Rightarrow> json list \<Rightarrow> world \<Rightarrow> (exn + json) \<times> world" where
  "get_unified_tags E posts_with_metadata W =
     (case collect_tags posts_with_metadata [] of
        Inl e \<Rightarrow> (Inl e, W)
      | Inr unique_tags \<Rightarrow>
          if unique_tags = [] then (Inl (OutputParserException ''No tags found to unify.''), W)
          else
            (case py_join (set_iter E unique_tags) of
               Inl e \<Rightarrow> (Inl e, W)
             | Inr unique_tags_list \<Rightarrow>
                 (let response = unify_chain E (length (llm_calls W)) unique_tags_list;
                      W1 = W\<lparr>llm_calls := llm_calls W @ [UnifyCall unique_tags_list]\<rparr>
                  in case clean_json_response E response of
                       Inr v \<Rightarrow> (Inr v, W1)
                     | Inl e \<Rightarrow>
                         if is_parse_error e
                         then (Inl e, print (FailedToParseUnifiedTags response) W1)
                         else (Inl e, W1))))"

section \<open>\<open>process_posts\<close>\<close>

text \<open>
  The body of the first loop, for one post: the \<open>caption\<close> test, the extraction, the merge
  \<open>post | metadata\<close> and the append. Only \<open>OutputParserException\<close> is caught.
\<close>

definition enrich_post :: "pyenv \<Rightarrow> json \<Rightarrow> json list \<Rightarrow> world \<Rightarrow> (exn + json list) \<times> world" where
  "enrich_post E post enriched_posts W =
     (case py_contains ''caption'' post of
        Inl e \<Rightarrow> (Inl e, W)
      | Inr present \<Rightarrow>
          if \<not> present then (Inr enriched_posts, print (SkippingPost post) W)
          else
            (case py_getitem post ''caption'' of
               Inl e \<Rightarrow> (Inl e, W)
             | Inr caption \<Rightarrow>
                 (case extract_metadata E caption W of
                    (Inr metadata, W1) \<Rightarrow>
                      (case py_or post metadata of
                         Inl e \<Rightarrow> (Inl e, W1)
                       | Inr post_with_metadata \<Rightarrow>
                           (Inr (enriched_posts @ [post_with_metadata]), W1))
                  | (Inl e, W1) \<Rightarrow>
                      if is_parse_error e then
                        (case py_take100 caption of
                           Inl e' \<Rightarrow> (Inl e', W1)
                         | Inr c \<Rightarrow>
                             (Inr enriched_posts, print (ErrorExtractingMetadata c e) W1))
                      else (Inl e, W1))))"

fun enrich_loop :: "pyenv \<Rightarrow> json list \<Rightarrow> json list \<Rightarrow> world \<Rightarrow> (exn + json list) \<times> world" where
  "enrich_loop E [] enriched_posts W = (Inr enriched_posts, W)"
| "enrich_loop E (post # posts) enriched_posts W =
     (case enrich_post E post enriched_posts W of
        (Inl e, W1) \<Rightarrow> (Inl e, W1)
      | (Inr enriched_posts', W1) \<Rightarrow> enrich_loop E posts enriched_posts' W1)"

text \<open>The set comprehension \<open>{unified_tags.get(tag, tag) for tag in current_tags}\<close>.\<close>

fun map_tags :: "json \<Rightarrow> json list \<Rightarrow> json list \<Rightarrow> exn + json list" where
  "map_tags unified_tags [] S = Inr S"
| "map_tags unified_tags (tag # tags) S =
     (case py_get unified_tags tag of
        Inl e \<Rightarrow> Inl e
      | Inr v \<Rightarrow>
          if py_hashable v then map_tags unified_tags tags (set_add v S) else Inl TypeError)"

text \<open>The body of the second loop: the tags of one post are replaced.\<close>

definition rewrite_post :: "pyenv \<Rightarrow> json \<Rightarrow> json \<Rightarrow> exn + json" where
  "rewrite_post E unified_tags post =
     (case py_getitem post ''tags'' of
        Inl e \<Rightarrow> Inl e
      | Inr current_tags \<Rightarrow>
          (case py_iter current_tags of
             Inl e \<Rightarrow> Inl e
           | Inr items \<Rightarrow>
               (case map_tags unified_tags items [] of
                  Inl e \<Rightarrow> Inl e
                | Inr new_tags \<Rightarrow> py_setitem post ''tags'' (JArray (set_iter E new_tags)))))"

fun rewrite_posts :: "pyenv \<Rightarrow> json \<Rightarrow> json list \<Rightarrow> exn + json list" where
  "rewrite_posts E unified_tags [] = Inr []"
| "rewrite_posts E unified_tags (post # posts) =
     (case rewrite_post E unified_tags post of
        Inl e \<Rightarrow> Inl e
      | Inr post' \<Rightarrow>
          (case rewrite_posts E unified_tags posts of
             Inl e \<Rightarrow> Inl e
           | Inr posts' \<Rightarrow> Inr (post' # posts')))"

text \<open>
  The first step, \<open>open\<close> and \<open>json.load\<close>. A text that is not JSON raises
  \<open>JSONDecodeError\<close>. A path that the files do not hold raises what \<open>load_fault\<close>
  says: \<open>FileNotFoundError\<close> when nothing is there, \<open>PermissionError\<close>,
  \<open>IsADirectoryError\<close> or \<open>NotADirectoryError\<close> when it cannot be opened,
  \<open>UnicodeDecodeError\<close> when it is not UTF-8, \<open>RecursionError\<close> or \<open>ValueError\<close>
  when its text is nested too deep or has a numeral too long for the decoder.
\<close>

definition load_posts :: "pyenv \<Rightarrow> string \<Rightarrow> world \<Rightarrow> exn + json" where
  "load_posts E raw_file_path W =
     (case files W raw_file_path of
        None \<Rightarrow> Inl (load_fault E raw_file_path)
      | Some text \<Rightarrow> (case loads E text of None \<Rightarrow> Inl JSONDecodeError | Some v \<Rightarrow> Inr v))"

text \<open>
  The last step, \<open>open\<close> for writing and \<open>json.dump\<close>. \<open>processed_file_path\<close>
  defaults to \<open>None\<close>, which \<open>open\<close> rejects with a \<open>TypeError\<close>. An
  \<open>IOError\<close>, of whatever subclass, is raised by \<open>open\<close>, before the file is touched;
  a failure in the middle of the write is not modelled.
\<close>

definition dump_posts :: "pyenv \<Rightarrow> string option \<Rightarrow> json list \<Rightarrow> world \<Rightarrow> (exn + unit) \<times> world" where
  "dump_posts E processed_file_path enriched_posts W =
     (case processed_file_path of
        None \<Rightarrow> (Inl TypeError, W)
      | Some path \<Rightarrow>
          if open_fails E path then (Inl IOError, W)
          else (Inr (), W\<lparr>files := (files W)(path \<mapsto> dumps E (JArray enriched_posts))\<rparr>))"

text \<open>
  \<open>process_posts\<close>, statement by statement. Each \<open>except\<close> clause catches the
  exceptions it names and nothing else; whatever is not caught ends the run as \<open>Raised\<close>.
\<close>

definition process_posts :: "pyenv \<Rightarrow> string \<Rightarrow> string option \<Rightarrow> world \<Rightarrow> outcome \<times> world" where
  "process_posts E raw_file_path processed_file_path W =
     (case load_posts E raw_file_path W of
        Inl e \<Rightarrow>
          if e = FileNotFoundError \<or> e = JSONDecodeError
          then (Returned, print (ErrorReadingRawPosts e) W)
          else (Raised e, W)
      | Inr posts \<Rightarrow>
          (case py_iter posts of
             Inl e \<Rightarrow> (Raised e, W)
           | Inr ps \<Rightarrow>
               (case enrich_loop E ps [] W of
                  (Inl e, W1) \<Rightarrow> (Raised e, W1)
                | (Inr enriched_posts, W1) \<Rightarrow>
                    if enriched_posts = [] then (Returned, print NoEnrichedPosts W1)
                    else
                      (case get_unified_tags E enriched_posts W1 of
                         (Inl e, W2) \<Rightarrow>
                           if is_parse_error e
                           then (Returned, print (ErrorUnifyingTags e) W2)
                           else (Raised e, W2)
                       | (Inr unified_tags, W2) \<Rightarrow>
                           (case rewrite_posts E unified_tags enriched_posts of
                              Inl e \<Rightarrow> (Raised e, W2)
                            | Inr final_posts \<Rightarrow>
                                (case dump_posts E processed_file_path final_posts W2 of
                                   (Inl e, W3) \<Rightarrow>
                                     if is_io_error e
                                     then (Returned, print (ErrorWritingProcessedPosts e) W3)
                                     else (Raised e, W3)
                                 | (Inr u, W3) \<Rightarrow> (Returned, W3)))))))"

section \<open>A concrete environment\<close>

text \<open>
  To run the program on examples the collaborators are made concrete. \<open>json_loads\<close>
  follows the scanner of Python's \<open>json\<close> module on the part of JSON the model has:
  objects, arrays, strings with the one-letter escapes, integers, \<open>true\<close>, \<open>false\<close>
  and \<open>null\<close>, with white space where the module allows it. What the model has no value
  for is rejected: a number with a fraction or an exponent, \<open>NaN\<close> and \<open>Infinity\<close>, and
  a \<open>\u\<close> escape. The fuel is the length of the text, and every call consumes a character.
  The theorems below do not depend on it: they hold for any decoder, and say which facts
  about the decoder they use.
\<close>

definition is_ws :: "char \<Rightarrow> bool" where
  "is_ws c = (c = CHR '' '' \<or> c = CHR 0x09 \<or> c = CHR 0x0A \<or> c = CHR 0x0D)"

definition skip_ws :: "string \<Rightarrow> string" where
  "skip_ws s = dropWhile is_ws s"

definition unescape :: "char \<Rightarrow> char option" where
  "unescape c =
     (if c = CHR 0x22 \<or> c = CHR 0x5C \<or> c = CHR ''/'' then Some c
      else if c = CHR ''b'' then Some (CHR 0x08)
      else if c = CHR ''f'' then Some (CHR 0x0C)
      else if c = CHR ''n'' then Some (CHR 0x0A)
      else if c = CHR ''r'' then Some (CHR 0x0D)
      else if c = CHR ''t'' then Some (CHR 0x09)
      else None)"

fun scan_string :: "string \<Rightarrow> string \<Rightarrow> (string \<times> string) option" where
  "scan_string acc [] = None"
| "scan_string acc [c] = (if c = CHR 0x22 then Some (acc, []) else None)"
| "scan_string acc (c # e # r) =
     (if c = CHR 0x22 then Some (acc, e # r)
      else if c = CHR 0x5C then
        (case unescape e of None \<Rightarrow> None | Some x \<Rightarrow> scan_string (acc @ [x]) r)
      else if (of_char c :: nat) < 32 then None
      else scan_string (acc @ [c]) (e # r))"

definition is_digit :: "char \<Rightarrow> bool" where
  "is_digit c = (48 \<le> (of_char c :: nat) \<and> (of_char c :: nat) \<le> 57)"

definition digits_value :: "string \<Rightarrow> int" where
  "digits_value ds = foldl (\<lambda>n c. 10 * n + (int (of_char c) - 48)) 0 ds"

definition scan_int :: "string \<Rightarrow> (int \<times> string) option" where
  "scan_int s =
     (let neg = (s \<noteq> [] \<and> hd s = CHR ''-'');
          r = (if neg then tl s else s);
          ds = takeWhile is_digit r;
          rest = dropWhile is_digit r
      in if ds = [] then None
         else if hd ds = CHR ''0'' \<and> 1 < length ds then None
         else if rest \<noteq> [] \<and> (hd rest = CHR ''.'' \<or> hd rest = CHR ''e'' \<or> hd rest = CHR ''E'')
           then None
         else Some (if neg then - digits_value ds else digits_value ds, rest))"

fun scan_value :: "nat \<Rightarrow> string \<Rightarrow> (json \<times> string) option"
and scan_members :: "nat \<Rightarrow> (string \<times> json) list \<Rightarrow> string \<Rightarrow> (json \<times> string) option"
and scan_elements :: "nat \<Rightarrow> json list \<Rightarrow> string \<Rightarrow> (json \<times> string) option" where
  "scan_value 0 s = None"
| "scan_value (Suc n) [] = None"
| "scan_value (Suc n) (c # r) =
     (if c = CHR 0x22 then
        (case scan_string [] r of None \<Rightarrow> None | Some (x, r') \<Rightarrow> Some (JString x, r'))
      else if c = CHR ''{'' then
        (case skip_ws r of
           [] \<Rightarrow> None
         | c1 # r1 \<Rightarrow>
             if c1 = CHR ''}'' then Some (JObject [], r1) else scan_members n [] (c1 # r1))
      else if c = CHR ''['' then
        (case skip_ws r of
           [] \<Rightarrow> None
         | c1 # r1 \<Rightarrow>
             if c1 = CHR '']'' then Some (JArray [], r1) else scan_elements n [] (c1 # r1))
      else if prefix ''null'' (c # r) then Some (JNull, drop 3 r)
      else if prefix ''true'' (c # r) then Some (JBool True, drop 3 r)
      else if prefix ''false'' (c # r) then Some (JBool False, drop 4 r)
      else (case scan_int (c # r) of None \<Rightarrow> None | Some (i, r') \<Rightarrow> Some (JInt i, r')))"
| "scan_members 0 d s = None"
| "scan_members (Suc n) d [] = None"
| "scan_members (Suc n) d (c # r) =
     (if c \<noteq> CHR 0x22 then None
      else
        (case scan_string [] r of
           None \<Rightarrow> None
         | Some (k, r1) \<Rightarrow>
             (case skip_ws r1 of
                [] \<Rightarrow> None
              | c2 # r2 \<Rightarrow>
                  if c2 \<noteq> CHR '':'' then None
                  else
                    (case scan_value n (skip_ws r2) of
                       None \<Rightarrow> None
                     | Some (v, r3) \<Rightarrow>
                         (case skip_ws r3 of
                            [] \<Rightarrow> None
                          | c4 # r4 \<Rightarrow>
                              if c4 = CHR ''}'' then Some (JObject (AList.update k v d), r4)
                              else if c4 = CHR '',''
                                then scan_members n (AList.update k v d) (skip_ws r4)
                              else None)))))"
| "scan_elements 0 xs s = None"
| "scan_elements (Suc n) xs s =
     (case scan_value n s of
        None \<Rightarrow> None
      | Some (v, r1) \<Rightarrow>
          (case skip_ws r1 of
             [] \<Rightarrow> None
           | c2 # r2 \<Rightarrow>
               if c2 = CHR '']'' then Some (JArray (xs @ [v]), r2)
               else if c2 = CHR '','' then scan_elements n (xs @ [v]) (skip_ws r2)
               else None))"

definition json_loads :: "string \<Rightarrow> json option" where
  "json_loads s =
     (case scan_value (Suc (length s)) (skip_ws s) of
        None \<Rightarrow> None
      | Some (v, r) \<Rightarrow> if skip_ws r = [] then Some v else None)"

text \<open>
  \<open>json_dumps\<close> is \<open>json.dumps(v, indent=4)\<close>: an item per line, four spaces for each
  level, every character outside the printable ASCII range escaped.
\<close>

fun dec_nat :: "nat \<Rightarrow> string" where
  "dec_nat n =
     (if n < 10 then [char_of (48 + n)]
      else dec_nat (n div 10) @ [char_of (48 + n mod 10)])"

declare dec_nat.simps [simp del]

definition dec_int :: "int \<Rightarrow> string" where
  "dec_int i = (if i < 0 then CHR ''-'' # dec_nat (nat (- i)) else dec_nat (nat i))"

definition hex_digit :: "nat \<Rightarrow> char" where
  "hex_digit n = (if n < 10 then char_of (48 + n) else char_of (87 + n))"

definition escape_char :: "char \<Rightarrow> string" where
  "escape_char c =
     (if c = CHR 0x22 then [CHR 0x5C, CHR 0x22]
      else if c = CHR 0x5C then [CHR 0x5C, CHR 0x5C]
      else if c = CHR 0x08 then [CHR 0x5C, CHR ''b'']
      else if c = CHR 0x0C then [CHR 0x5C, CHR ''f'']
      else if c = CHR 0x0A then [CHR 0x5C, CHR ''n'']
      else if c = CHR 0x0D then [CHR 0x5C, CHR ''r'']
      else if c = CHR 0x09 then [CHR 0x5C, CHR ''t'']
      else if (of_char c :: nat) < 32 \<or> 126 < (of_char c :: nat)
        then [CHR 0x5C, CHR ''u'', CHR ''0'', CHR ''0'',
              hex_digit ((of_char c :: nat) div 16), hex_digit ((of_char c :: nat) mod 16)]
      else [c])"

definition encode_string :: "string \<Rightarrow> string" where
  "encode_string s = CHR 0x22 # concat (map escape_char s) @ [CHR 0x22]"

definition newline_indent :: "nat \<Rightarrow> string" where
  "newline_indent level = CHR 0x0A # replicate (4 * level) (CHR '' '')"

fun join_with :: "string \<Rightarrow> string list \<Rightarrow> string" where
  "join_with sep [] = []"
| "join_with sep [x] = x"
| "join_with sep (x # xs) = x @ sep @ join_with sep xs"

fun encode :: "nat \<Rightarrow> json \<Rightarrow> string" where
  "encode level JNull = ''null''"
| "encode level (JBool b) = (if b then ''true'' else ''false'')"
| "encode level (JInt i) = dec_int i"
| "encode level (JString s) = encode_string s"
| "encode level (JArray xs) =
     (if xs = [] then ''[]''
      else ''['' @ newline_indent (Suc level)
           @ join_with ('','' @ newline_indent (Suc level)) (map (encode (Suc level)) xs)
           @ newline_indent level @ '']'')"
| "encode level (JObject d) =
     (if d = [] then ''{}''
      else ''{'' @ newline_indent (Suc level)
           @ join_with ('','' @ newline_indent (Suc level))
               (map (\<lambda>kv. encode_string (fst kv) @ '': '' @ encode (Suc level) (snd kv)) d)
           @ newline_indent level @ ''}'')"

definition json_dumps :: "json \<Rightarrow> string" where
  "json_dumps v = encode 0 v"

text \<open>
  An oracle given by a table: the extraction chain answers a caption with the text the
  table has for it (and with an apology otherwise), the unification chain always gives the
  same answer. Sets are iterated in the reverse of the insertion order, and one path cannot
  be opened for writing. Of the paths with no readable file one is protected, one is a
  directory, one holds bytes that are not UTF-8, and at the others there is nothing.
\<close>

definition table_env :: "(json \<times> string) list \<Rightarrow> string \<Rightarrow> pyenv" where
  "table_env answers unified =
     \<lparr>loads = json_loads,
      dumps = json_dumps,
      extract_chain =
        (\<lambda>k post. case map_of answers post of Some r \<Rightarrow> r | None \<Rightarrow> ''Sorry, I cannot help.''),
      unify_chain = (\<lambda>k tags. unified),
      set_iter = rev,
      open_fails = (\<lambda>path. path = ''/proc/processed_posts.json''),
      load_fault =
        (\<lambda>path. if path = ''/root/raw_posts.json'' then PermissionError
                else if path = ''data'' then IsADirectoryError
                else if path = ''data/raw_posts.bin'' then UnicodeDecodeError
                else FileNotFoundError)\<rparr>"

definition one_file :: "string \<Rightarrow> string \<Rightarrow> world" where
  "one_file path text = \<lparr>files = [path \<mapsto> text], stdout = [], llm_calls = []\<rparr>"

section \<open>Notions used in the statements\<close>

text \<open>
  The exceptions that no \<open>except\<close> clause of the program names: they come from an
  operand of the wrong type or a missing key.
\<close>

fun is_type_error :: "exn \<Rightarrow> bool" where
  "is_type_error TypeError = True"
| "is_type_error AttributeError = True"
| "is_type_error (KeyError k) = True"
| "is_type_error e = False"

section \<open>Facts about the primitives\<close>

lemma py_find_range:
  "py_find c s = - 1 \<or>
   (0 \<le> py_find c s \<and> py_find c s < int (length s) \<and> s ! nat (py_find c s) = c)"
  by (induction s) (auto simp: Let_def nat_add_distrib)

lemma py_find_notin: "c \<notin> set s \<Longrightarrow> py_find c s = - 1"
  by (induction s) (auto simp: Let_def)

lemma py_rfind_range:
  "py_rfind c s = - 1 \<or>
   (0 \<le> py_rfind c s \<and> py_rfind c s < int (length s) \<and> s ! nat (py_rfind c s) = c)"
proof -
  let ?r = "py_find c (rev s)"
  from py_find_range [of c "rev s"] show ?thesis
  proof
    assume "?r = - 1"
    then show ?thesis by (simp add: py_rfind_def)
  next
    assume h: "0 \<le> ?r \<and> ?r < int (length (rev s)) \<and> rev s ! nat ?r = c"
    then have lt: "nat ?r < length s" by (simp add: nat_less_iff)
    have "s ! (length s - 1 - nat ?r) = c" using h lt by (simp add: rev_nth)
    moreover have "nat (int (length s) - 1 - ?r) = length s - 1 - nat ?r" using h by linarith
    ultimately show ?thesis using h by (simp add: py_rfind_def Let_def)
  qed
qed

text \<open>
  With no \<open>{\<close> in the text, \<open>find\<close> gives \<open>-1\<close> and the slice starts at the last
  character: it is empty, or it is that character when the text ends with \<open>}\<close>.
\<close>

lemma slice_from_minus_one:
  "py_slice s (- 1) (py_rfind (CHR ''}'') s + 1) = [] \<or>
   py_slice s (- 1) (py_rfind (CHR ''}'') s + 1) = ''}''"
proof (cases "s = []")
  case True
  then show ?thesis by (simp add: py_slice_def py_bound_def)
next
  case False
  then have n: "0 < length s" by simp
  have lo: "py_bound (length s) (- 1) = length s - 1"
    using n by (auto simp: py_bound_def)
  let ?k = "py_rfind (CHR ''}'') s"
  from py_rfind_range [of "CHR ''}''" s] show ?thesis
  proof
    assume "?k = - 1"
    then show ?thesis by (simp add: py_slice_def py_bound_def)
  next
    assume h: "0 \<le> ?k \<and> ?k < int (length s) \<and> s ! nat ?k = CHR ''}''"
    show ?thesis
    proof (cases "nat ?k = length s - 1")
      case True
      have d: "drop (length s - 1) s = [last s]" using False
        by (metis append_butlast_last_id append_eq_conv_conj length_butlast)
      have l: "last s = CHR ''}''" using h True False by (simp add: last_conv_nth)
      have "py_bound (length s) (?k + 1) = length s"
        using h True n by (auto simp: py_bound_def)
      then show ?thesis using lo d l n by (simp add: py_slice_def Let_def)
    next
      case notlast: False
      have "py_bound (length s) (?k + 1) \<le> length s - 1"
        using h notlast n by (auto simp: py_bound_def)
      then show ?thesis using lo by (simp add: py_slice_def Let_def)
    qed
  qed
qed

section \<open>Facts about the concrete environment\<close>

lemma json_loads_empty: "json_loads [] = None"
  by code_simp

lemma json_loads_closing_brace: "json_loads ''}'' = None"
  by code_simp

lemma loads_table_env [simp]: "loads (table_env answers unified) = json_loads"
  by (simp add: table_env_def)

section \<open>The response parser\<close>

text \<open>
  C6. A response with no \<open>{\<close> in it never parses: \<open>clean_json_response\<close> raises
  \<open>OutputParserException\<close>, and the message ends with the whole response. The slice
  handed to the decoder is then the empty text or \<open>}\<close>, and the decoder of the
  standard library rejects both, which is all the theorem asks of it.
\<close>

theorem clean_json_response_no_brace:
  assumes "loads E [] = None" and "loads E ''}'' = None" and "CHR ''{'' \<notin> set response"
  shows "clean_json_response E response =
           Inl (OutputParserException (''Invalid JSON content:\<newline>'' @ response))"
  using assms slice_from_minus_one [of response]
  by (auto simp: clean_json_response_def Let_def py_find_notin)

theorem clean_json_response_no_brace_witness:
  "loads (table_env [] []) [] = None \<and> loads (table_env [] []) ''}'' = None
   \<and> CHR ''{'' \<notin> set ''All done!}''
   \<and> clean_json_response (table_env [] []) ''All done!}'' =
       Inl (OutputParserException (''Invalid JSON content:\<newline>'' @ ''All done!}''))"
proof -
  have a: "loads (table_env [] []) [] = None" by (simp add: json_loads_empty)
  have b: "loads (table_env [] []) ''}'' = None" by (simp add: json_loads_closing_brace)
  have c: "CHR ''{'' \<notin> set ''All done!}''" by simp
  from clean_json_response_no_brace [OF a b c] a b c show ?thesis by simp
qed

section \<open>Facts about the operations and the first loop\<close>

lemma map_of_dict_or:
  "distinct (map fst b) \<Longrightarrow>
   map_of (dict_or a b) k = (case map_of b k of Some v \<Rightarrow> Some v | None \<Rightarrow> map_of a k)"
proof (induction b arbitrary: a)
  case Nil
  then show ?case by (simp add: dict_or_def)
next
  case (Cons x b)
  obtain k0 v0 where x: "x = (k0, v0)" by (cases x)
  have step: "dict_or a ((k0, v0) # b) = dict_or (AList.update k0 v0 a) b"
    by (simp add: dict_or_def)
  from Cons.prems x have d: "distinct (map fst b)" and n: "k0 \<notin> fst ` set b" by auto
  from n have none: "map_of b k0 = None" by (simp add: map_of_eq_None_iff)
  show ?case
    using Cons.IH [OF d, of "AList.update k0 v0 a"] none
    by (auto simp: x step update_conv' split: option.splits)
qed

lemma clean_json_response_exn: "clean_json_response E r = Inl e \<Longrightarrow> is_parse_error e"
  by (auto simp: clean_json_response_def Let_def split: option.splits)

lemma extract_metadata_world:
  "extract_metadata E post W = (r, W') \<Longrightarrow>
   files W' = files W \<and> llm_calls W' = llm_calls W @ [ExtractCall post]
   \<and> (\<exists>ds. stdout W' = stdout W @ ds)"
  by (auto simp: extract_metadata_def Let_def print_def split: sum.splits if_splits)

lemma extract_metadata_exn:
  "extract_metadata E post W = (Inl e, W') \<Longrightarrow> is_parse_error e \<or> e = TypeError"
  by (cases post)
     (auto simp: extract_metadata_def Let_def split: sum.splits if_splits
           dest: clean_json_response_exn)

lemma py_contains_exn: "py_contains k v = Inl e \<Longrightarrow> e = TypeError"
  by (cases v) auto

lemma py_getitem_exn: "py_getitem v k = Inl e \<Longrightarrow> e = TypeError \<or> e = KeyError k"
  by (cases v) (auto split: option.splits)

lemma py_iter_exn: "py_iter v = Inl e \<Longrightarrow> e = TypeError"
  by (cases v) auto

lemma py_take100_exn: "py_take100 v = Inl e \<Longrightarrow> e = TypeError"
  by (cases v) auto

lemma py_or_exn: "py_or a b = Inl e \<Longrightarrow> e = TypeError"
  by (cases a; cases b) auto

lemma py_setitem_exn: "py_setitem v k x = Inl e \<Longrightarrow> e = TypeError"
  by (cases v) auto

lemma py_get_exn: "py_get m k = Inl e \<Longrightarrow> e = TypeError \<or> e = AttributeError"
  by (cases m; cases k) (auto split: if_splits)

lemma enrich_post_files: "enrich_post E post acc W = (r, W') \<Longrightarrow> files W' = files W"
  by (auto simp: enrich_post_def print_def split: sum.splits if_splits prod.splits
           dest!: extract_metadata_world)

lemma enrich_post_calls:
  "enrich_post E post acc W = (r, W') \<Longrightarrow>
   llm_calls W' = llm_calls W \<or> (\<exists>c. llm_calls W' = llm_calls W @ [ExtractCall c])"
  by (auto simp: enrich_post_def print_def split: sum.splits if_splits prod.splits
           dest!: extract_metadata_world)

lemma enrich_post_exn:
  "enrich_post E post acc W = (Inl e, W') \<Longrightarrow> is_type_error e"
  by (auto simp: enrich_post_def split: sum.splits if_splits prod.splits
           dest!: extract_metadata_exn py_contains_exn py_getitem_exn py_take100_exn py_or_exn)

lemma enrich_loop_files: "enrich_loop E posts acc W = (r, W') \<Longrightarrow> files W' = files W"
proof (induction posts arbitrary: acc W)
  case Nil
  then show ?case by simp
next
  case (Cons post posts)
  obtain r1 W1 where s: "enrich_post E post acc W = (r1, W1)" by (cases "enrich_post E post acc W")
  show ?case
  proof (cases r1)
    case (Inl e)
    with Cons.prems s enrich_post_files [OF s] show ?thesis by simp
  next
    case (Inr acc')
    with Cons.prems s have "enrich_loop E posts acc' W1 = (r, W')" by simp
    from Cons.IH [OF this] enrich_post_files [OF s] show ?thesis by simp
  qed
qed

lemma enrich_loop_calls:
  "enrich_loop E posts acc W = (r, W') \<Longrightarrow> \<exists>cs. llm_calls W' = llm_calls W @ map ExtractCall cs"
proof (induction posts arbitrary: acc W)
  case Nil
  then have "llm_calls W' = llm_calls W @ map ExtractCall []" by simp
  then show ?case by blast
next
  case (Cons post posts)
  obtain r1 W1 where s: "enrich_post E post acc W = (r1, W1)" by (cases "enrich_post E post acc W")
  from enrich_post_calls [OF s]
  obtain c1 where c1: "llm_calls W1 = llm_calls W @ map ExtractCall c1"
  proof
    assume "llm_calls W1 = llm_calls W"
    then have "llm_calls W1 = llm_calls W @ map ExtractCall []" by simp
    then show thesis by (rule that)
  next
    assume "\<exists>c. llm_calls W1 = llm_calls W @ [ExtractCall c]"
    then obtain c where "llm_calls W1 = llm_calls W @ map ExtractCall [c]" by auto
    then show thesis by (rule that)
  qed
  show ?case
  proof (cases r1)
    case (Inl e)
    with Cons.prems s c1 show ?thesis by auto
  next
    case (Inr acc')
    with Cons.prems s have "enrich_loop E posts acc' W1 = (r, W')" by simp
    from Cons.IH [OF this] obtain cs where "llm_calls W' = llm_calls W1 @ map ExtractCall cs" ..
    with c1 have "llm_calls W' = llm_calls W @ map ExtractCall (c1 @ cs)" by simp
    then show ?thesis by blast
  qed
qed

lemma enrich_loop_exn: "enrich_loop E posts acc W = (Inl e, W') \<Longrightarrow> is_type_error e"
proof (induction posts arbitrary: acc W)
  case Nil
  then show ?case by simp
next
  case (Cons post posts)
  obtain r1 W1 where s: "enrich_post E post acc W = (r1, W1)" by (cases "enrich_post E post acc W")
  show ?case
  proof (cases r1)
    case (Inl e1)
    with Cons.prems s have "e = e1" by simp
    with s Inl enrich_post_exn show ?thesis by blast
  next
    case (Inr acc')
    with Cons.prems s have "enrich_loop E posts acc' W1 = (Inl e, W')" by simp
    from Cons.IH [OF this] show ?thesis .
  qed
qed

lemma enrich_loop_append:
  "enrich_loop E (xs @ ys) acc W =
     (case enrich_loop E xs acc W of
        (Inl e, W1) \<Rightarrow> (Inl e, W1)
      | (Inr acc', W1) \<Rightarrow> enrich_loop E ys acc' W1)"
proof (induction xs arbitrary: acc W)
  case Nil
  then show ?case by simp
next
  case (Cons x xs)
  show ?case
    by (cases "enrich_post E x acc W") (simp add: Cons.IH split: sum.splits)
qed

section \<open>A post whose extraction fails\<close>

lemma py_getitem_contains: "py_getitem post k = Inr v \<Longrightarrow> py_contains k post = Inr True"
  by (cases post) (auto split: option.splits dest: map_of_SomeD intro: rev_image_eqI)

lemma extract_metadata_parse_error:
  assumes "extract_metadata E caption W1 = (Inl (OutputParserException m), W2)"
  shows "\<exists>c. py_take100 caption = Inr c
           \<and> W2 = print (FailedToParsePost c (extract_chain E (length (llm_calls W1)) caption))
                    (W1\<lparr>llm_calls := llm_calls W1 @ [ExtractCall caption]\<rparr>)"
  using assms
  by (auto simp: extract_metadata_def Let_def split: sum.splits if_splits
           dest!: py_take100_exn clean_json_response_exn)

text \<open>
  C3. A post of the batch is reached (the posts before it went through the loop), it has a
  caption, and the extraction of that caption raises \<open>OutputParserException\<close>. Then the
  loop goes on with the posts after it from the very list of enriched posts it had before
  the post: nothing of the post is appended. Two lines have been printed, one by
  \<open>extract_metadata\<close> and one by the handler in \<open>process_posts\<close>, and no file has
  changed.
\<close>

theorem failed_extraction_skips_post:
  assumes "enrich_loop E before acc W = (Inr done, W1)"
      and "py_getitem post ''caption'' = Inr caption"
      and "extract_metadata E caption W1 = (Inl (OutputParserException m), W2)"
  shows "\<exists>c. py_take100 caption = Inr c
           \<and> enrich_loop E (before @ post # after) acc W =
               enrich_loop E after done
                 (print (ErrorExtractingMetadata c (OutputParserException m)) W2)
           \<and> stdout W2 =
               stdout W1 @ [FailedToParsePost c (extract_chain E (length (llm_calls W1)) caption)]
           \<and> files W2 = files W1"
proof -
  from extract_metadata_parse_error [OF assms(3)] obtain c where
    c: "py_take100 caption = Inr c" and
    W2: "W2 = print (FailedToParsePost c (extract_chain E (length (llm_calls W1)) caption))
                (W1\<lparr>llm_calls := llm_calls W1 @ [ExtractCall caption]\<rparr>)"
    by blast
  have body: "enrich_post E post done W1 =
                (Inr done, print (ErrorExtractingMetadata c (OutputParserException m)) W2)"
    using assms(2,3) c py_getitem_contains [OF assms(2)] by (simp add: enrich_post_def)
  have "enrich_loop E (before @ post # after) acc W = enrich_loop E (post # after) done W1"
    using assms(1) by (simp add: enrich_loop_append)
  also have "\<dots> = enrich_loop E after done
                     (print (ErrorExtractingMetadata c (OutputParserException m)) W2)"
    using body by simp
  finally show ?thesis using c W2 by (auto simp: print_def)
qed

lemma extract_chain_table_env [simp]:
  "extract_chain (table_env answers unified) k post =
     (case map_of answers post of Some r \<Rightarrow> r | None \<Rightarrow> ''Sorry, I cannot help.'')"
  by (simp add: table_env_def)

lemma apology_does_not_parse:
  "clean_json_response (table_env answers unified) ''Sorry, I cannot help.'' =
     Inl (OutputParserException (''Invalid JSON content:\<newline>'' @ ''Sorry, I cannot help.''))"
  by code_simp

lemma sunset_parses:
  \<open>clean_json_response (table_env answers unified)
     ''{"line_count":1,"language":"English","tags":["Travel"]}'' =
   Inr (JObject [(''line_count'', JInt 1), (''language'', JString ''English''),
                 (''tags'', JArray [JString ''Travel''])])\<close>
  by code_simp

theorem failed_extraction_skips_post_witness:
  \<open>enrich_loop (table_env [(JString ''Sunset'', ''{"line_count":1,"language":"English","tags":["Travel"]}'')] []) [JObject [(''id'', JInt 7)]] [] (one_file ''raw.json'' [])
     = (Inr [], print (SkippingPost (JObject [(''id'', JInt 7)])) (one_file ''raw.json'' []))
   \<and> py_getitem (JObject [(''caption'', JString ''Bad day'')]) ''caption'' = Inr (JString ''Bad day'')
   \<and> extract_metadata (table_env [(JString ''Sunset'', ''{"line_count":1,"language":"English","tags":["Travel"]}'')] []) (JString ''Bad day'')
        (print (SkippingPost (JObject [(''id'', JInt 7)])) (one_file ''raw.json'' []))
     = (Inl (OutputParserException (''Invalid JSON content:\<newline>'' @ ''Sorry, I cannot help.'')),
        \<lparr>files = [''raw.json'' \<mapsto> []],
         stdout = [SkippingPost (JObject [(''id'', JInt 7)]),
                   FailedToParsePost (JString ''Bad day'') ''Sorry, I cannot help.''],
         llm_calls = [ExtractCall (JString ''Bad day'')]\<rparr>)
   \<and> enrich_loop (table_env [(JString ''Sunset'', ''{"line_count":1,"language":"English","tags":["Travel"]}'')] [])
        ([JObject [(''id'', JInt 7)]] @ JObject [(''caption'', JString ''Bad day'')] # [JObject [(''caption'', JString ''Sunset'')]])
        [] (one_file ''raw.json'' [])
     = (Inr [JObject [(''caption'', JString ''Sunset''), (''line_count'', JInt 1),
                      (''language'', JString ''English''), (''tags'', JArray [JString ''Travel''])]],
        \<lparr>files = [''raw.json'' \<mapsto> []],
         stdout = [SkippingPost (JObject [(''id'', JInt 7)]),
                   FailedToParsePost (JString ''Bad day'') ''Sorry, I cannot help.'',
                   ErrorExtractingMetadata (JString ''Bad day'')
                     (OutputParserException (''Invalid JSON content:\<newline>'' @ ''Sorry, I cannot help.''))],
         llm_calls = [ExtractCall (JString ''Bad day''), ExtractCall (JString ''Sunset'')]\<rparr>)\<close>
proof -
  let ?E = \<open>table_env [(JString ''Sunset'', ''{"line_count":1,"language":"English","tags":["Travel"]}'')] []\<close>
  let ?W = "one_file ''raw.json'' []"
  let ?W1 = "print (SkippingPost (JObject [(''id'', JInt 7)])) ?W"
  let ?W2 = "\<lparr>files = [''raw.json'' \<mapsto> []],
         stdout = [SkippingPost (JObject [(''id'', JInt 7)]),
                   FailedToParsePost (JString ''Bad day'') ''Sorry, I cannot help.''],
         llm_calls = [ExtractCall (JString ''Bad day'')]\<rparr>"
  have a: "enrich_loop ?E [JObject [(''id'', JInt 7)]] [] ?W = (Inr [], ?W1)"
    by (simp add: enrich_post_def)
  have b: "py_getitem (JObject [(''caption'', JString ''Bad day'')]) ''caption'' = Inr (JString ''Bad day'')"
    by simp
  have c: "extract_metadata ?E (JString ''Bad day'') ?W1
     = (Inl (OutputParserException (''Invalid JSON content:\<newline>'' @ ''Sorry, I cannot help.'')), ?W2)"
    by (simp add: extract_metadata_def apology_does_not_parse print_def one_file_def Let_def)
  from failed_extraction_skips_post [OF a b c, of "[JObject [(''caption'', JString ''Sunset'')]]"] a b c
  show ?thesis
    by (simp add: enrich_post_def extract_metadata_def Let_def print_def one_file_def
                  sunset_parses apology_does_not_parse dict_or_def)
qed

section \<open>The tag vocabulary\<close>

lemma set_update_ok: "\<forall>x\<in>set xs. py_hashable x \<Longrightarrow> \<exists>S'. set_update xs S = Inr S'"
  by (induction xs arbitrary: S) auto

lemma set_update_exn: "set_update xs S = Inl e \<Longrightarrow> e = TypeError"
  by (induction xs arbitrary: S) (auto split: if_splits)

lemma collect_tags_no_tags:
  "\<forall>p\<in>set posts. \<exists>t. py_getitem p ''tags'' = Inr t \<and> py_iter t = Inr [] \<Longrightarrow>
   collect_tags posts S = Inr S"
  by (induction posts) auto

lemma collect_tags_exn: "collect_tags posts S = Inl e \<Longrightarrow> e = TypeError \<or> e = KeyError ''tags''"
  by (induction posts arbitrary: S)
     (auto split: sum.splits dest: py_getitem_exn py_iter_exn set_update_exn)

lemma collect_tags_has_tags:
  "collect_tags posts S = Inr S' \<Longrightarrow> \<forall>p\<in>set posts. \<exists>t. py_getitem p ''tags'' = Inr t"
  by (induction posts arbitrary: S) (auto split: sum.splits)

lemma collect_tags_first_missing:
  assumes "\<forall>q\<in>set before. \<exists>t items. py_getitem q ''tags'' = Inr t \<and> py_iter t = Inr items
                                     \<and> (\<forall>x\<in>set items. py_hashable x)"
      and "map_of d ''tags'' = None"
  shows "collect_tags (before @ JObject d # after) S = Inl (KeyError ''tags'')"
  using assms(1)
proof (induction before arbitrary: S)
  case Nil
  then show ?case using assms(2) by simp
next
  case (Cons q before)
  from Cons.prems obtain t items where
    q: "py_getitem q ''tags'' = Inr t" "py_iter t = Inr items" "\<forall>x\<in>set items. py_hashable x"
    by auto
  from set_update_ok [OF q(3)] obtain S' where "set_update items S = Inr S'" by blast
  with q Cons.IH [of S'] Cons.prems show ?case by simp
qed

lemma get_unified_tags_files:
  "get_unified_tags E posts W = (r, W') \<Longrightarrow> files W' = files W"
  by (auto simp: get_unified_tags_def Let_def print_def split: sum.splits if_splits)

lemma get_unified_tags_collect_fails:
  "collect_tags posts [] = Inl e \<Longrightarrow> get_unified_tags E posts W = (Inl e, W)"
  by (simp add: get_unified_tags_def)

lemma get_unified_tags_has_tags:
  "get_unified_tags E posts W = (Inr m, W') \<Longrightarrow> \<forall>p\<in>set posts. \<exists>t. py_getitem p ''tags'' = Inr t"
  by (auto simp: get_unified_tags_def Let_def split: sum.splits if_splits
           dest: collect_tags_has_tags)

section \<open>Runs that stop before the unification\<close>

text \<open>
  C4. The posts were loaded and the first loop ended with no enriched post. Then
  \<open>process_posts\<close> prints that no enriched post is available and returns. On the way no
  file was changed, so the destination is neither created nor overwritten, and every call
  made was a call of the extraction chain: the unifier was not called.
\<close>

theorem empty_batch_aborts:
  assumes "load_posts E raw_file_path W = Inr posts"
      and "py_iter posts = Inr ps"
      and "enrich_loop E ps [] W = (Inr [], W1)"
  shows "process_posts E raw_file_path processed_file_path W = (Returned, print NoEnrichedPosts W1)
         \<and> files (print NoEnrichedPosts W1) = files W
         \<and> (\<exists>cs. llm_calls (print NoEnrichedPosts W1) = llm_calls W @ map ExtractCall cs)"
  using assms enrich_loop_files [OF assms(3)] enrich_loop_calls [OF assms(3)]
  by (simp add: process_posts_def print_def)

text \<open>
  C5. The posts were loaded, the first loop ended with enriched posts, and the tags of every
  one of them iterate to nothing. Then \<open>get_unified_tags\<close> raises
  \<open>OutputParserException\<close> with the message that no tags were found, in the world it was
  given: the unification chain is not called. \<open>process_posts\<close> catches it, prints the
  error and returns; no file has changed and only extraction calls were made.
\<close>

theorem empty_vocabulary_aborts:
  assumes "load_posts E raw_file_path W = Inr posts"
      and "py_iter posts = Inr ps"
      and "enrich_loop E ps [] W = (Inr enriched_posts, W1)"
      and "enriched_posts \<noteq> []"
      and "\<forall>p\<in>set enriched_posts. \<exists>t. py_getitem p ''tags'' = Inr t \<and> py_iter t = Inr []"
  shows "get_unified_tags E enriched_posts W1 =
           (Inl (OutputParserException ''No tags found to unify.''), W1)
         \<and> process_posts E raw_file_path processed_file_path W =
             (Returned,
              print (ErrorUnifyingTags (OutputParserException ''No tags found to unify.'')) W1)
         \<and> files W1 = files W
         \<and> (\<exists>cs. llm_calls W1 = llm_calls W @ map ExtractCall cs)"
proof -
  have g: "get_unified_tags E enriched_posts W1 =
             (Inl (OutputParserException ''No tags found to unify.''), W1)"
    using collect_tags_no_tags [OF assms(5), of "[]"] by (simp add: get_unified_tags_def)
  have "process_posts E raw_file_path processed_file_path W =
          (Returned, print (ErrorUnifyingTags (OutputParserException ''No tags found to unify.'')) W1)"
    using assms(1-4) g by (simp add: process_posts_def)
  with g enrich_loop_files [OF assms(3)] enrich_loop_calls [OF assms(3)] show ?thesis by simp
qed

lemma unify_chain_table_env [simp]: "unify_chain (table_env answers unified) k tags = unified"
  by (simp add: table_env_def)

lemma set_iter_table_env [simp]: "set_iter (table_env answers unified) = rev"
  by (simp add: table_env_def)

lemma dumps_table_env [simp]: "dumps (table_env answers unified) = json_dumps"
  by (simp add: table_env_def)

lemma open_fails_table_env [simp]:
  "open_fails (table_env answers unified) path = (path = ''/proc/processed_posts.json'')"
  by (simp add: table_env_def)

lemma no_caption_then_bad_day_loads:
  \<open>json_loads ''[{"id": 7}, {"caption": "Bad day"}]'' =
     Some (JArray [JObject [(''id'', JInt 7)], JObject [(''caption'', JString ''Bad day'')]])\<close>
  by code_simp

theorem empty_batch_aborts_witness:
  \<open>load_posts (table_env [] []) ''data/raw_posts.json''
      (one_file ''data/raw_posts.json'' ''[{"id": 7}, {"caption": "Bad day"}]'')
     = Inr (JArray [JObject [(''id'', JInt 7)], JObject [(''caption'', JString ''Bad day'')]])
   \<and> py_iter (JArray [JObject [(''id'', JInt 7)], JObject [(''caption'', JString ''Bad day'')]])
     = Inr [JObject [(''id'', JInt 7)], JObject [(''caption'', JString ''Bad day'')]]
   \<and> enrich_loop (table_env [] [])
        [JObject [(''id'', JInt 7)], JObject [(''caption'', JString ''Bad day'')]] []
        (one_file ''data/raw_posts.json'' ''[{"id": 7}, {"caption": "Bad day"}]'')
     = (Inr [],
        \<lparr>files = [''data/raw_posts.json'' \<mapsto> ''[{"id": 7}, {"caption": "Bad day"}]''],
         stdout = [SkippingPost (JObject [(''id'', JInt 7)]),
                   FailedToParsePost (JString ''Bad day'') ''Sorry, I cannot help.'',
                   ErrorExtractingMetadata (JString ''Bad day'')
                     (OutputParserException (''Invalid JSON content:\<newline>'' @ ''Sorry, I cannot help.''))],
         llm_calls = [ExtractCall (JString ''Bad day'')]\<rparr>)
   \<and> process_posts (table_env [] []) ''data/raw_posts.json'' (Some ''data/processed_posts.json'')
        (one_file ''data/raw_posts.json'' ''[{"id": 7}, {"caption": "Bad day"}]'')
     = (Returned,
        \<lparr>files = [''data/raw_posts.json'' \<mapsto> ''[{"id": 7}, {"caption": "Bad day"}]''],
         stdout = [SkippingPost (JObject [(''id'', JInt 7)]),
                   FailedToParsePost (JString ''Bad day'') ''Sorry, I cannot help.'',
                   ErrorExtractingMetadata (JString ''Bad day'')
                     (OutputParserException (''Invalid JSON content:\<newline>'' @ ''Sorry, I cannot help.'')),
                   NoEnrichedPosts],
         llm_calls = [ExtractCall (JString ''Bad day'')]\<rparr>)\<close>
proof -
  let ?E = "table_env [] []"
  let ?W = \<open>one_file ''data/raw_posts.json'' ''[{"id": 7}, {"caption": "Bad day"}]''\<close>
  let ?ps = "[JObject [(''id'', JInt 7)], JObject [(''caption'', JString ''Bad day'')]]"
  let ?W1 = \<open>\<lparr>files = [''data/raw_posts.json'' \<mapsto> ''[{"id": 7}, {"caption": "Bad day"}]''],
         stdout = [SkippingPost (JObject [(''id'', JInt 7)]),
                   FailedToParsePost (JString ''Bad day'') ''Sorry, I cannot help.'',
                   ErrorExtractingMetadata (JString ''Bad day'')
                     (OutputParserException (''Invalid JSON content:\<newline>'' @ ''Sorry, I cannot help.''))],
         llm_calls = [ExtractCall (JString ''Bad day'')]\<rparr>\<close>
  have a: "load_posts ?E ''data/raw_posts.json'' ?W = Inr (JArray ?ps)"
    by (simp add: load_posts_def one_file_def no_caption_then_bad_day_loads)
  have b: "py_iter (JArray ?ps) = Inr ?ps" by simp
  have c: "enrich_loop ?E ?ps [] ?W = (Inr [], ?W1)"
    by (simp add: enrich_post_def extract_metadata_def Let_def print_def one_file_def
                  apology_does_not_parse)
  from empty_batch_aborts [OF a b c, of "Some ''data/processed_posts.json''"] a b c
  show ?thesis by (simp add: print_def)
qed

lemma sunset_alone_loads:
  \<open>json_loads ''[{"caption": "Sunset"}]'' = Some (JArray [JObject [(''caption'', JString ''Sunset'')]])\<close>
  by code_simp

lemma no_tags_answer_parses:
  \<open>clean_json_response (table_env answers unified)
     ''{"line_count":1,"language":"English","tags":[]}'' =
   Inr (JObject [(''line_count'', JInt 1), (''language'', JString ''English''), (''tags'', JArray [])])\<close>
  by code_simp

theorem empty_vocabulary_aborts_witness:
  \<open>load_posts (table_env [(JString ''Sunset'', ''{"line_count":1,"language":"English","tags":[]}'')] [])
      ''data/raw_posts.json'' (one_file ''data/raw_posts.json'' ''[{"caption": "Sunset"}]'')
     = Inr (JArray [JObject [(''caption'', JString ''Sunset'')]])
   \<and> py_iter (JArray [JObject [(''caption'', JString ''Sunset'')]])
     = Inr [JObject [(''caption'', JString ''Sunset'')]]
   \<and> enrich_loop (table_env [(JString ''Sunset'', ''{"line_count":1,"language":"English","tags":[]}'')] [])
        [JObject [(''caption'', JString ''Sunset'')]] []
        (one_file ''data/raw_posts.json'' ''[{"caption": "Sunset"}]'')
     = (Inr [JObject [(''caption'', JString ''Sunset''), (''line_count'', JInt 1),
                      (''language'', JString ''English''), (''tags'', JArray [])]],
        \<lparr>files = [''data/raw_posts.json'' \<mapsto> ''[{"caption": "Sunset"}]''],
         stdout = [],
         llm_calls = [ExtractCall (JString ''Sunset'')]\<rparr>)
   \<and> [JObject [(''caption'', JString ''Sunset''), (''line_count'', JInt 1),
                (''language'', JString ''English''), (''tags'', JArray [])]] \<noteq> []
   \<and> py_getitem (JObject [(''caption'', JString ''Sunset''), (''line_count'', JInt 1),
                            (''language'', JString ''English''), (''tags'', JArray [])]) ''tags''
     = Inr (JArray [])
   \<and> py_iter (JArray []) = Inr []
   \<and> process_posts (table_env [(JString ''Sunset'', ''{"line_count":1,"language":"English","tags":[]}'')] [])
        ''data/raw_posts.json'' (Some ''data/processed_posts.json'')
        (one_file ''data/raw_posts.json'' ''[{"caption": "Sunset"}]'')
     = (Returned,
        \<lparr>files = [''data/raw_posts.json'' \<mapsto> ''[{"caption": "Sunset"}]''],
         stdout = [ErrorUnifyingTags (OutputParserException ''No tags found to unify.'')],
         llm_calls = [ExtractCall (JString ''Sunset'')]\<rparr>)\<close>
proof -
  let ?E = \<open>table_env [(JString ''Sunset'', ''{"line_count":1,"language":"English","tags":[]}'')] []\<close>
  let ?W = \<open>one_file ''data/raw_posts.json'' ''[{"caption": "Sunset"}]''\<close>
  let ?ps = "[JObject [(''caption'', JString ''Sunset'')]]"
  let ?en = "[JObject [(''caption'', JString ''Sunset''), (''line_count'', JInt 1),
                      (''language'', JString ''English''), (''tags'', JArray [])]]"
  let ?W1 = \<open>\<lparr>files = [''data/raw_posts.json'' \<mapsto> ''[{"caption": "Sunset"}]''],
         stdout = [],
         llm_calls = [ExtractCall (JString ''Sunset'')]\<rparr>\<close>
  have a: "load_posts ?E ''data/raw_posts.json'' ?W = Inr (JArray ?ps)"
    by (simp add: load_posts_def one_file_def sunset_alone_loads)
  have b: "py_iter (JArray ?ps) = Inr ?ps" by simp
  have c: "enrich_loop ?E ?ps [] ?W = (Inr ?en, ?W1)"
    by (simp add: enrich_post_def extract_metadata_def Let_def print_def one_file_def
                  no_tags_answer_parses dict_or_def)
  have d: "?en \<noteq> []" by simp
  have e: "\<forall>p\<in>set ?en. \<exists>t. py_getitem p ''tags'' = Inr t \<and> py_iter t = Inr []" by simp
  from empty_vocabulary_aborts [OF a b c d e, of "Some ''data/processed_posts.json''"] a b c d e
  show ?thesis by (simp add: print_def)
qed

section \<open>Enriched posts without tags\<close>

text \<open>
  Two posts. The answer for the first has the number 5 as its tags, the answer for the
  second has no \<open>tags\<close> key. Both are enriched, and the run ends with the \<open>TypeError\<close>
  of iterating the number, raised before the second post is looked at.
\<close>

lemma two_posts_load:
  \<open>json_loads ''[{"caption": "Sunset"}, {"caption": "Job search tips"}]'' =
     Some (JArray [JObject [(''caption'', JString ''Sunset'')],
                   JObject [(''caption'', JString ''Job search tips'')]])\<close>
  by code_simp

theorem missing_tags_counterexample:
  \<open>fst (enrich_loop
          (table_env [(JString ''Sunset'', ''{"line_count":1,"language":"English","tags":5}''),
                      (JString ''Job search tips'', ''{"line_count":1,"language":"English"}'')] [])
          [JObject [(''caption'', JString ''Sunset'')], JObject [(''caption'', JString ''Job search tips'')]]
          [] (one_file ''data/raw_posts.json'' ''[{"caption": "Sunset"}, {"caption": "Job search tips"}]''))
     = Inr [JObject [(''caption'', JString ''Sunset''), (''line_count'', JInt 1),
                     (''language'', JString ''English''), (''tags'', JInt 5)],
            JObject [(''caption'', JString ''Job search tips''), (''line_count'', JInt 1),
                     (''language'', JString ''English'')]]
   \<and> fst (process_posts
          (table_env [(JString ''Sunset'', ''{"line_count":1,"language":"English","tags":5}''),
                      (JString ''Job search tips'', ''{"line_count":1,"language":"English"}'')] [])
          ''data/raw_posts.json'' (Some ''data/processed_posts.json'')
          (one_file ''data/raw_posts.json'' ''[{"caption": "Sunset"}, {"caption": "Job search tips"}]''))
     = Raised TypeError\<close>
  by code_simp


lemma rewrite_posts_has_tags:
  "rewrite_posts E m posts = Inr final \<Longrightarrow> \<forall>p\<in>set posts. \<exists>t. py_getitem p ''tags'' = Inr t"
  by (induction posts arbitrary: final) (auto simp: rewrite_post_def split: sum.splits)

text \<open>
  C10, as the code has it. The posts were loaded, the first loop ran to its end, and one of
  the enriched posts is a dictionary without the key \<open>tags\<close>. Then \<open>process_posts\<close>
  ends with an exception that nothing catches, raised while the tags are gathered: no file
  has changed and only extraction calls were made. The exception is \<open>KeyError\<close> for
  \<open>tags\<close> or \<open>TypeError\<close>, and it is the \<open>KeyError\<close> when every enriched post before
  that one has tags that can be iterated and are all hashable. The rewrite of the post
  raises the same \<open>KeyError\<close>, with any mapping. Last, the two steps end well only on posts
  that all have the key: whenever \<open>get_unified_tags\<close> returns a mapping, and whenever the
  rewrite of a list of posts returns, every post given has it.
\<close>

theorem missing_tags_raises:
  assumes "load_posts E raw_file_path W = Inr posts"
      and "py_iter posts = Inr ps"
      and "enrich_loop E ps [] W = (Inr (before @ JObject d # after), W1)"
      and "map_of d ''tags'' = None"
  shows "(\<exists>e. process_posts E raw_file_path processed_file_path W = (Raised e, W1)
            \<and> (e = KeyError ''tags'' \<or> e = TypeError)
            \<and> ((\<forall>q\<in>set before. \<exists>t items. py_getitem q ''tags'' = Inr t \<and> py_iter t = Inr items
                                          \<and> (\<forall>x\<in>set items. py_hashable x))
                 \<longrightarrow> e = KeyError ''tags''))
         \<and> files W1 = files W
         \<and> (\<exists>cs. llm_calls W1 = llm_calls W @ map ExtractCall cs)
         \<and> rewrite_post E unified_tags (JObject d) = Inl (KeyError ''tags'')
         \<and> (get_unified_tags E posts' W' = (Inr m, W'') \<longrightarrow>
              (\<forall>p\<in>set posts'. \<exists>t. py_getitem p ''tags'' = Inr t))
         \<and> (rewrite_posts E m' posts'' = Inr final_posts \<longrightarrow>
              (\<forall>p\<in>set posts''. \<exists>t. py_getitem p ''tags'' = Inr t))"
proof -
  let ?enriched = "before @ JObject d # after"
  have nt: "py_getitem (JObject d) ''tags'' = Inl (KeyError ''tags'')"
    using assms(4) by simp
  obtain e where e: "collect_tags ?enriched [] = Inl e"
  proof (cases "collect_tags ?enriched []")
    case (Inl e)
    then show ?thesis by (rule that)
  next
    case (Inr S')
    from collect_tags_has_tags [OF this] nt show ?thesis by auto
  qed
  from collect_tags_exn [OF e] have kind: "e = KeyError ''tags'' \<or> e = TypeError" by blast
  then have np: "\<not> is_parse_error e" by auto
  have run: "process_posts E raw_file_path processed_file_path W = (Raised e, W1)"
    using assms(1-3) get_unified_tags_collect_fails [OF e, of E W1] np
    by (simp add: process_posts_def)
  have first: "(\<forall>q\<in>set before. \<exists>t items. py_getitem q ''tags'' = Inr t \<and> py_iter t = Inr items
                                         \<and> (\<forall>x\<in>set items. py_hashable x))
                \<longrightarrow> e = KeyError ''tags''"
  proof
    assume "\<forall>q\<in>set before. \<exists>t items. py_getitem q ''tags'' = Inr t \<and> py_iter t = Inr items
                                         \<and> (\<forall>x\<in>set items. py_hashable x)"
    from collect_tags_first_missing [OF this assms(4), of after "[]"] e show "e = KeyError ''tags''"
      by simp
  qed
  have rw: "rewrite_post E unified_tags (JObject d) = Inl (KeyError ''tags'')"
    using assms(4) by (simp add: rewrite_post_def)
  have total: "get_unified_tags E posts' W' = (Inr m, W'') \<longrightarrow>
                 (\<forall>p\<in>set posts'. \<exists>t. py_getitem p ''tags'' = Inr t)"
    using get_unified_tags_has_tags by blast
  have total': "rewrite_posts E m' posts'' = Inr final_posts \<longrightarrow>
                 (\<forall>p\<in>set posts''. \<exists>t. py_getitem p ''tags'' = Inr t)"
    using rewrite_posts_has_tags by blast
  from run kind first have "\<exists>e. process_posts E raw_file_path processed_file_path W = (Raised e, W1)
            \<and> (e = KeyError ''tags'' \<or> e = TypeError)
            \<and> ((\<forall>q\<in>set before. \<exists>t items. py_getitem q ''tags'' = Inr t \<and> py_iter t = Inr items
                                          \<and> (\<forall>x\<in>set items. py_hashable x))
                 \<longrightarrow> e = KeyError ''tags'')"
    by blast
  with rw total total' enrich_loop_files [OF assms(3)] enrich_loop_calls [OF assms(3)]
  show ?thesis by blast
qed

lemma no_tags_key_answer_parses:
  \<open>clean_json_response (table_env answers unified) ''{"line_count":1,"language":"English"}'' =
   Inr (JObject [(''line_count'', JInt 1), (''language'', JString ''English'')])\<close>
  by code_simp

lemma travel_mapping_parses:
  \<open>clean_json_response (table_env answers unified) ''{"Travel":"Travel & Adventure"}'' =
   Inr (JObject [(''Travel'', JString ''Travel & Adventure'')])\<close>
  by code_simp

theorem missing_tags_raises_witness:
  \<open>load_posts (table_env [(JString ''Sunset'', ''{"line_count":1,"language":"English","tags":["Travel"]}''),
                   (JString ''Job search tips'', ''{"line_count":1,"language":"English"}'')]
           ''{"Travel":"Travel & Adventure"}'' ) ''data/raw_posts.json'' (one_file ''data/raw_posts.json'' ''[{"caption": "Sunset"}, {"caption": "Job search tips"}]'' ) = Inr (JArray [JObject [(''caption'', JString ''Sunset'')], JObject [(''caption'', JString ''Job search tips'')]])
   \<and> py_iter (JArray [JObject [(''caption'', JString ''Sunset'')], JObject [(''caption'', JString ''Job search tips'')]]) = Inr [JObject [(''caption'', JString ''Sunset'')], JObject [(''caption'', JString ''Job search tips'')]]
   \<and> enrich_loop (table_env [(JString ''Sunset'', ''{"line_count":1,"language":"English","tags":["Travel"]}''),
                   (JString ''Job search tips'', ''{"line_count":1,"language":"English"}'')]
           ''{"Travel":"Travel & Adventure"}'' ) [JObject [(''caption'', JString ''Sunset'')], JObject [(''caption'', JString ''Job search tips'')]] [] (one_file ''data/raw_posts.json'' ''[{"caption": "Sunset"}, {"caption": "Job search tips"}]'' )
     = (Inr ([JObject [(''caption'', JString ''Sunset''), (''line_count'', JInt 1),
                (''language'', JString ''English''), (''tags'', JArray [JString ''Travel''])]] @ JObject [(''caption'', JString ''Job search tips''), (''line_count'', JInt 1),
          (''language'', JString ''English'')] # []), \<lparr>files = [''data/raw_posts.json'' \<mapsto> ''[{"caption": "Sunset"}, {"caption": "Job search tips"}]''],
       stdout = [],
       llm_calls = [ExtractCall (JString ''Sunset''), ExtractCall (JString ''Job search tips'')]\<rparr>)
   \<and> map_of [(''caption'', JString ''Job search tips''), (''line_count'', JInt 1),
          (''language'', JString ''English'')] ''tags'' = None
   \<and> py_getitem (JObject [(''caption'', JString ''Sunset''), (''line_count'', JInt 1),
                (''language'', JString ''English''), (''tags'', JArray [JString ''Travel''])]) ''tags'' = Inr (JArray [JString ''Travel''])
   \<and> py_iter (JArray [JString ''Travel'']) = Inr [JString ''Travel'']
   \<and> py_hashable (JString ''Travel'')
   \<and> get_unified_tags (table_env [(JString ''Sunset'', ''{"line_count":1,"language":"English","tags":["Travel"]}''),
                   (JString ''Job search tips'', ''{"line_count":1,"language":"English"}'')]
           ''{"Travel":"Travel & Adventure"}'' ) [JObject [(''caption'', JString ''Sunset''), (''line_count'', JInt 1),
                (''language'', JString ''English''), (''tags'', JArray [JString ''Travel''])]] \<lparr>files = [''data/raw_posts.json'' \<mapsto> ''[{"caption": "Sunset"}, {"caption": "Job search tips"}]''],
       stdout = [],
       llm_calls = [ExtractCall (JString ''Sunset''), ExtractCall (JString ''Job search tips'')]\<rparr> = (Inr (JObject [(''Travel'', JString ''Travel & Adventure'')]), \<lparr>files = [''data/raw_posts.json'' \<mapsto> ''[{"caption": "Sunset"}, {"caption": "Job search tips"}]''],
       stdout = [],
       llm_calls = [ExtractCall (JString ''Sunset''), ExtractCall (JString ''Job search tips''),
                    UnifyCall ''Travel'']\<rparr>)
   \<and> process_posts (table_env [(JString ''Sunset'', ''{"line_count":1,"language":"English","tags":["Travel"]}''),
                   (JString ''Job search tips'', ''{"line_count":1,"language":"English"}'')]
           ''{"Travel":"Travel & Adventure"}'' ) ''data/raw_posts.json'' (Some ''data/processed_posts.json'') (one_file ''data/raw_posts.json'' ''[{"caption": "Sunset"}, {"caption": "Job search tips"}]'' )
     = (Raised (KeyError ''tags''), \<lparr>files = [''data/raw_posts.json'' \<mapsto> ''[{"caption": "Sunset"}, {"caption": "Job search tips"}]''],
       stdout = [],
       llm_calls = [ExtractCall (JString ''Sunset''), ExtractCall (JString ''Job search tips'')]\<rparr>)
   \<and> rewrite_posts (table_env [(JString ''Sunset'', ''{"line_count":1,"language":"English","tags":["Travel"]}''),
                   (JString ''Job search tips'', ''{"line_count":1,"language":"English"}'')]
           ''{"Travel":"Travel & Adventure"}'' ) (JObject [(''Travel'', JString ''Travel & Adventure'')]) [JObject [(''caption'', JString ''Sunset''), (''line_count'', JInt 1),
                (''language'', JString ''English''), (''tags'', JArray [JString ''Travel''])]] = Inr [JObject [(''caption'', JString ''Sunset''), (''line_count'', JInt 1),
                (''language'', JString ''English''), (''tags'', JArray [JString ''Travel & Adventure''])]]
   \<and> rewrite_post (table_env [(JString ''Sunset'', ''{"line_count":1,"language":"English","tags":["Travel"]}''),
                   (JString ''Job search tips'', ''{"line_count":1,"language":"English"}'')]
           ''{"Travel":"Travel & Adventure"}'' ) (JObject [(''Travel'', JString ''Travel & Adventure'')]) (JObject [(''caption'', JString ''Job search tips''), (''line_count'', JInt 1),
          (''language'', JString ''English'')]) = Inl (KeyError ''tags'')\<close>
proof -
  let ?E = \<open>table_env [(JString ''Sunset'', ''{"line_count":1,"language":"English","tags":["Travel"]}''),
                   (JString ''Job search tips'', ''{"line_count":1,"language":"English"}'')]
           ''{"Travel":"Travel & Adventure"}'' \<close>
  let ?W = \<open>one_file ''data/raw_posts.json'' ''[{"caption": "Sunset"}, {"caption": "Job search tips"}]'' \<close>
  let ?ps = \<open>[JObject [(''caption'', JString ''Sunset'')], JObject [(''caption'', JString ''Job search tips'')]]\<close>
  let ?A = \<open>JObject [(''caption'', JString ''Sunset''), (''line_count'', JInt 1),
                (''language'', JString ''English''), (''tags'', JArray [JString ''Travel''])]\<close>
  let ?dB = \<open>[(''caption'', JString ''Job search tips''), (''line_count'', JInt 1),
          (''language'', JString ''English'')]\<close>
  let ?W1 = \<open>\<lparr>files = [''data/raw_posts.json'' \<mapsto> ''[{"caption": "Sunset"}, {"caption": "Job search tips"}]''],
       stdout = [],
       llm_calls = [ExtractCall (JString ''Sunset''), ExtractCall (JString ''Job search tips'')]\<rparr>\<close>
  let ?W2 = \<open>\<lparr>files = [''data/raw_posts.json'' \<mapsto> ''[{"caption": "Sunset"}, {"caption": "Job search tips"}]''],
       stdout = [],
       llm_calls = [ExtractCall (JString ''Sunset''), ExtractCall (JString ''Job search tips''),
                    UnifyCall ''Travel'']\<rparr>\<close>
  let ?F = \<open>JObject [(''caption'', JString ''Sunset''), (''line_count'', JInt 1),
                (''language'', JString ''English''), (''tags'', JArray [JString ''Travel & Adventure''])]\<close>
  let ?m = \<open>JObject [(''Travel'', JString ''Travel & Adventure'')]\<close>
  have a: "load_posts ?E ''data/raw_posts.json'' ?W = Inr (JArray ?ps)"
    by (simp add: load_posts_def one_file_def two_posts_load)
  have b: "py_iter (JArray ?ps) = Inr ?ps" by simp
  have c: "enrich_loop ?E ?ps [] ?W = (Inr ([?A] @ JObject ?dB # []), ?W1)"
    by (simp add: enrich_post_def extract_metadata_def Let_def print_def one_file_def
                  sunset_parses no_tags_key_answer_parses dict_or_def)
  have d: "map_of ?dB ''tags'' = None" by simp
  have f: "\<forall>q\<in>set [?A]. \<exists>t items. py_getitem q ''tags'' = Inr t \<and> py_iter t = Inr items
                                  \<and> (\<forall>x\<in>set items. py_hashable x)"
    by simp
  have g: "get_unified_tags ?E [?A] ?W1 = (Inr ?m, ?W2)"
    by (simp add: get_unified_tags_def set_add_def Let_def travel_mapping_parses)
  have h: "rewrite_posts ?E ?m [?A] = Inr [?F]"
    by (simp add: rewrite_post_def set_add_def)
  from missing_tags_raises
         [where posts' = "[?A]" and W' = ?W1 and m = ?m and W'' = ?W2
            and m' = ?m and posts'' = "[?A]" and final_posts = "[?F]" and unified_tags = ?m
            and processed_file_path = "Some ''data/processed_posts.json''", OF a b c d] f g h
  have "process_posts ?E ''data/raw_posts.json'' (Some ''data/processed_posts.json'') ?W
          = (Raised (KeyError ''tags''), ?W1)"
    and "rewrite_post ?E ?m (JObject ?dB) = Inl (KeyError ''tags'')"
    by auto
  with a b c d g h show ?thesis by simp
qed

section \<open>Load errors and write errors\<close>

lemma load_fault_table_env [simp]:
  "load_fault (table_env answers unified) path =
     (if path = ''/root/raw_posts.json'' then PermissionError
      else if path = ''data'' then IsADirectoryError
      else if path = ''data/raw_posts.bin'' then UnicodeDecodeError
      else FileNotFoundError)"
  by (simp add: table_env_def)

text \<open>
  The raw posts file is missing: \<open>process_posts\<close> prints the error and returns; the
  exception does not leave it.
\<close>

theorem load_and_write_errors_counterexample:
  "fst (process_posts (table_env [] []) ''data/raw_posts.json'' (Some ''data/processed_posts.json'')
         (one_file ''data/other.json'' ''[]'')) = Returned
   \<and> stdout (snd (process_posts (table_env [] []) ''data/raw_posts.json''
                    (Some ''data/processed_posts.json'') (one_file ''data/other.json'' ''[]'')))
       = [ErrorReadingRawPosts FileNotFoundError]"
  by (simp add: process_posts_def load_posts_def one_file_def print_def)

text \<open>
  C8, as the code has it. When the load raises \<open>FileNotFoundError\<close> or
  \<open>JSONDecodeError\<close>, \<open>process_posts\<close> catches it: the error is printed and the
  function returns, in the world it was given but for the printed line, so with no oracle
  call and no file written. Any other exception of the load is not caught: it ends the run,
  with nothing printed and the world as it was. A run that gets as far as the write and
  cannot open the destination catches the \<open>IOError\<close>, prints it and returns, and no
  file is changed.
\<close>

theorem load_and_write_errors_are_caught:
  "(load_posts E raw_file_path W = Inl e \<longrightarrow>
      process_posts E raw_file_path processed_file_path W =
        (if e = FileNotFoundError \<or> e = JSONDecodeError
         then (Returned, print (ErrorReadingRawPosts e) W)
         else (Raised e, W)))
   \<and> (load_posts E raw_file_path' W' = Inr posts
       \<and> py_iter posts = Inr ps
       \<and> enrich_loop E ps [] W' = (Inr enriched_posts, W1)
       \<and> enriched_posts \<noteq> []
       \<and> get_unified_tags E enriched_posts W1 = (Inr unified_tags, W2)
       \<and> rewrite_posts E unified_tags enriched_posts = Inr final_posts
       \<and> open_fails E path \<longrightarrow>
      process_posts E raw_file_path' (Some path) W' =
        (Returned, print (ErrorWritingProcessedPosts IOError) W2)
      \<and> files W2 = files W')"
proof (intro conjI impI)
  assume "load_posts E raw_file_path W = Inl e"
  then show "process_posts E raw_file_path processed_file_path W =
        (if e = FileNotFoundError \<or> e = JSONDecodeError
         then (Returned, print (ErrorReadingRawPosts e) W)
         else (Raised e, W))"
    by (simp add: process_posts_def)
next
  assume run: "load_posts E raw_file_path' W' = Inr posts
       \<and> py_iter posts = Inr ps
       \<and> enrich_loop E ps [] W' = (Inr enriched_posts, W1)
       \<and> enriched_posts \<noteq> []
       \<and> get_unified_tags E enriched_posts W1 = (Inr unified_tags, W2)
       \<and> rewrite_posts E unified_tags enriched_posts = Inr final_posts
       \<and> open_fails E path"
  then show "process_posts E raw_file_path' (Some path) W' =
        (Returned, print (ErrorWritingProcessedPosts IOError) W2)"
    by (simp add: process_posts_def dump_posts_def)
  from run have "enrich_loop E ps [] W' = (Inr enriched_posts, W1)"
    and "get_unified_tags E enriched_posts W1 = (Inr unified_tags, W2)"
    by simp_all
  then show "files W2 = files W'"
    using enrich_loop_files get_unified_tags_files by metis
qed

theorem load_and_write_errors_are_caught_witness:
  \<open>load_posts (table_env [(JString ''Sunset'', ''{"line_count":1,"language":"English","tags":["Travel"]}'')]
           ''{"Travel":"Travel & Adventure"}'' ) ''data/raw_posts.json'' (one_file ''data/other.json'' ''[]'' ) = Inl FileNotFoundError
   \<and> process_posts (table_env [(JString ''Sunset'', ''{"line_count":1,"language":"English","tags":["Travel"]}'')]
           ''{"Travel":"Travel & Adventure"}'' ) ''data/raw_posts.json'' (Some ''data/processed_posts.json'') (one_file ''data/other.json'' ''[]'' )
     = (Returned, \<lparr>files = [''data/other.json'' \<mapsto> ''[]''],
       stdout = [ErrorReadingRawPosts FileNotFoundError],
       llm_calls = []\<rparr>)
   \<and> load_posts (table_env [(JString ''Sunset'', ''{"line_count":1,"language":"English","tags":["Travel"]}'')]
           ''{"Travel":"Travel & Adventure"}'' ) ''data/raw_posts.bin'' (one_file ''data/other.json'' ''[]'' ) = Inl UnicodeDecodeError
   \<and> process_posts (table_env [(JString ''Sunset'', ''{"line_count":1,"language":"English","tags":["Travel"]}'')]
           ''{"Travel":"Travel & Adventure"}'' ) ''data/raw_posts.bin'' (Some ''data/processed_posts.json'') (one_file ''data/other.json'' ''[]'' )
     = (Raised UnicodeDecodeError, one_file ''data/other.json'' ''[]'' )
   \<and> load_posts (table_env [(JString ''Sunset'', ''{"line_count":1,"language":"English","tags":["Travel"]}'')]
           ''{"Travel":"Travel & Adventure"}'' ) ''data/raw_posts.json'' (one_file ''data/raw_posts.json'' ''[{"caption": "Sunset"}]'' ) = Inr (JArray [JObject [(''caption'', JString ''Sunset'')]])
   \<and> py_iter (JArray [JObject [(''caption'', JString ''Sunset'')]]) = Inr [JObject [(''caption'', JString ''Sunset'')]]
   \<and> enrich_loop (table_env [(JString ''Sunset'', ''{"line_count":1,"language":"English","tags":["Travel"]}'')]
           ''{"Travel":"Travel & Adventure"}'' ) [JObject [(''caption'', JString ''Sunset'')]] [] (one_file ''data/raw_posts.json'' ''[{"caption": "Sunset"}]'' ) = (Inr [JObject [(''caption'', JString ''Sunset''), (''line_count'', JInt 1),
                (''language'', JString ''English''), (''tags'', JArray [JString ''Travel''])]], \<lparr>files = [''data/raw_posts.json'' \<mapsto> ''[{"caption": "Sunset"}]''],
       stdout = [],
       llm_calls = [ExtractCall (JString ''Sunset'')]\<rparr>)
   \<and> [JObject [(''caption'', JString ''Sunset''), (''line_count'', JInt 1),
                (''language'', JString ''English''), (''tags'', JArray [JString ''Travel''])]] \<noteq> []
   \<and> get_unified_tags (table_env [(JString ''Sunset'', ''{"line_count":1,"language":"English","tags":["Travel"]}'')]
           ''{"Travel":"Travel & Adventure"}'' ) [JObject [(''caption'', JString ''Sunset''), (''line_count'', JInt 1),
                (''language'', JString ''English''), (''tags'', JArray [JString ''Travel''])]] \<lparr>files = [''data/raw_posts.json'' \<mapsto> ''[{"caption": "Sunset"}]''],
       stdout = [],
       llm_calls = [ExtractCall (JString ''Sunset'')]\<rparr> = (Inr (JObject [(''Travel'', JString ''Travel & Adventure'')]), \<lparr>files = [''data/raw_posts.json'' \<mapsto> ''[{"caption": "Sunset"}]''],
       stdout = [],
       llm_calls = [ExtractCall (JString ''Sunset''), UnifyCall ''Travel'']\<rparr>)
   \<and> rewrite_posts (table_env [(JString ''Sunset'', ''{"line_count":1,"language":"English","tags":["Travel"]}'')]
           ''{"Travel":"Travel & Adventure"}'' ) (JObject [(''Travel'', JString ''Travel & Adventure'')]) [JObject [(''caption'', JString ''Sunset''), (''line_count'', JInt 1),
                (''language'', JString ''English''), (''tags'', JArray [JString ''Travel''])]] = Inr [JObject [(''caption'', JString ''Sunset''), (''line_count'', JInt 1),
                (''language'', JString ''English''), (''tags'', JArray [JString ''Travel & Adventure''])]]
   \<and> open_fails (table_env [(JString ''Sunset'', ''{"line_count":1,"language":"English","tags":["Travel"]}'')]
           ''{"Travel":"Travel & Adventure"}'' ) ''/proc/processed_posts.json''
   \<and> process_posts (table_env [(JString ''Sunset'', ''{"line_count":1,"language":"English","tags":["Travel"]}'')]
           ''{"Travel":"Travel & Adventure"}'' ) ''data/raw_posts.json'' (Some ''/proc/processed_posts.json'') (one_file ''data/raw_posts.json'' ''[{"caption": "Sunset"}]'' )
     = (Returned, \<lparr>files = [''data/raw_posts.json'' \<mapsto> ''[{"caption": "Sunset"}]''],
       stdout = [ErrorWritingProcessedPosts IOError],
       llm_calls = [ExtractCall (JString ''Sunset''), UnifyCall ''Travel'']\<rparr>)\<close>
proof -
  let ?E = \<open>table_env [(JString ''Sunset'', ''{"line_count":1,"language":"English","tags":["Travel"]}'')]
           ''{"Travel":"Travel & Adventure"}'' \<close>
  let ?W = \<open>one_file ''data/other.json'' ''[]'' \<close>
  let ?Wp = \<open>one_file ''data/raw_posts.json'' ''[{"caption": "Sunset"}]'' \<close>
  let ?ps = \<open>[JObject [(''caption'', JString ''Sunset'')]]\<close>
  let ?A = \<open>JObject [(''caption'', JString ''Sunset''), (''line_count'', JInt 1),
                (''language'', JString ''English''), (''tags'', JArray [JString ''Travel''])]\<close>
  let ?F = \<open>JObject [(''caption'', JString ''Sunset''), (''line_count'', JInt 1),
                (''language'', JString ''English''), (''tags'', JArray [JString ''Travel & Adventure''])]\<close>
  let ?W1 = \<open>\<lparr>files = [''data/raw_posts.json'' \<mapsto> ''[{"caption": "Sunset"}]''],
       stdout = [],
       llm_calls = [ExtractCall (JString ''Sunset'')]\<rparr>\<close>
  let ?W2 = \<open>\<lparr>files = [''data/raw_posts.json'' \<mapsto> ''[{"caption": "Sunset"}]''],
       stdout = [],
       llm_calls = [ExtractCall (JString ''Sunset''), UnifyCall ''Travel'']\<rparr>\<close>
  let ?m = \<open>JObject [(''Travel'', JString ''Travel & Adventure'')]\<close>
  have a: "load_posts ?E ''data/raw_posts.json'' ?W = Inl FileNotFoundError"
    by (simp add: load_posts_def one_file_def)
  have a': "load_posts ?E ''data/raw_posts.bin'' ?W = Inl UnicodeDecodeError"
    by (simp add: load_posts_def one_file_def)
  have b: "load_posts ?E ''data/raw_posts.json'' ?Wp = Inr (JArray ?ps)"
    by (simp add: load_posts_def one_file_def sunset_alone_loads)
  have c: "py_iter (JArray ?ps) = Inr ?ps" by simp
  have d: "enrich_loop ?E ?ps [] ?Wp = (Inr [?A], ?W1)"
    by (simp add: enrich_post_def extract_metadata_def Let_def print_def one_file_def
                  sunset_parses dict_or_def)
  have e: "[?A] \<noteq> []" by simp
  have f: "get_unified_tags ?E [?A] ?W1 = (Inr ?m, ?W2)"
    by (simp add: get_unified_tags_def set_add_def Let_def travel_mapping_parses)
  have g: "rewrite_posts ?E ?m [?A] = Inr [?F]"
    by (simp add: rewrite_post_def set_add_def)
  have h: "open_fails ?E ''/proc/processed_posts.json''" by simp
  note thm1 = load_and_write_errors_are_caught
         [where E = ?E and raw_file_path = "''data/raw_posts.json''" and W = ?W
            and e = FileNotFoundError
            and processed_file_path = "Some ''data/processed_posts.json''"
            and raw_file_path' = "''data/raw_posts.json''" and W' = ?Wp
            and posts = "JArray ?ps" and ps = ?ps and enriched_posts = "[?A]" and ?W1.0 = ?W1
            and unified_tags = ?m and ?W2.0 = ?W2 and final_posts = "[?F]"
            and path = "''/proc/processed_posts.json''"]
  note thm2 = load_and_write_errors_are_caught
         [where E = ?E and raw_file_path = "''data/raw_posts.bin''" and W = ?W
            and e = UnicodeDecodeError
            and processed_file_path = "Some ''data/processed_posts.json''"]
  from thm1 a b c d e f g h
  have r1: "process_posts ?E ''data/raw_posts.json'' (Some ''data/processed_posts.json'') ?W
              = (Returned, print (ErrorReadingRawPosts FileNotFoundError) ?W)"
    and r3: "process_posts ?E ''data/raw_posts.json'' (Some ''/proc/processed_posts.json'') ?Wp
              = (Returned, print (ErrorWritingProcessedPosts IOError) ?W2)"
    by simp_all
  from thm2 a'
  have r2: "process_posts ?E ''data/raw_posts.bin'' (Some ''data/processed_posts.json'') ?W
              = (Raised UnicodeDecodeError, ?W)"
    by simp
  from r1 r2 r3 a a' b c d e f g h show ?thesis by (simp add: print_def one_file_def)
qed

section \<open>The rewrite of the tags\<close>

lemma py_key_string: "py_key x = JString t \<longleftrightarrow> x = JString t"
  by (cases x) auto

lemma set_add_mono: "set S \<subseteq> set (set_add v S)"
  by (auto simp: set_add_def)

lemma set_add_elems: "set (set_add v S) \<subseteq> insert v (set S)"
  by (auto simp: set_add_def)

lemma set_add_string: "JString t \<in> set (set_add (JString t) S)"
proof (cases "py_key (JString t) \<in> py_key ` set S")
  case True
  then obtain x where "x \<in> set S" and "py_key x = JString t" by auto
  then have "JString t \<in> set S" by (simp add: py_key_string)
  then show ?thesis using set_add_mono by blast
next
  case False
  then show ?thesis by (simp add: set_add_def)
qed

lemma set_add_distinct:
  "distinct (map py_key S) \<Longrightarrow> distinct (map py_key (set_add v S))"
  by (auto simp: set_add_def)

lemma set_add_new: "py_key v \<notin> py_key ` set S \<Longrightarrow> set_add v S = S @ [v]"
  by (auto simp: set_add_def)

lemma map_tags_mono: "map_tags m tags S = Inr S' \<Longrightarrow> set S \<subseteq> set S'"
proof (induction tags arbitrary: S)
  case Nil
  then show ?case by simp
next
  case (Cons tag tags)
  from Cons.prems obtain v where
    "map_tags m tags (set_add v S) = Inr S'"
    by (auto split: sum.splits if_splits)
  from Cons.IH [OF this] set_add_mono [of S v] show ?case by blast
qed

lemma map_tags_fallback:
  "map_tags (JObject d) tags S = Inr S' \<Longrightarrow> JString t \<in> set tags \<Longrightarrow> map_of d t = None \<Longrightarrow>
   JString t \<in> set S'"
proof (induction tags arbitrary: S)
  case Nil
  then show ?case by simp
next
  case (Cons tag tags)
  from Cons.prems(1) obtain v where
    v: "py_get (JObject d) tag = Inr v" and
    rest: "map_tags (JObject d) tags (set_add v S) = Inr S'"
    by (auto split: sum.splits if_splits)
  show ?case
  proof (cases "tag = JString t")
    case True
    with v Cons.prems(3) have "v = JString t" by simp
    then have "JString t \<in> set (set_add v S)" by (simp add: set_add_string)
    with map_tags_mono [OF rest] show ?thesis by blast
  next
    case False
    with Cons.prems(2) have "JString t \<in> set tags" by simp
    from Cons.IH [OF rest this Cons.prems(3)] show ?thesis .
  qed
qed

lemma py_get_hashable:
  assumes "py_hashable k" and "\<forall>kv\<in>set d. py_hashable (snd kv)"
  shows "\<exists>v. py_get (JObject d) k = Inr v \<and> py_hashable v"
proof (cases k)
  case (JString s)
  show ?thesis
  proof (cases "map_of d s")
    case None
    with JString show ?thesis by simp
  next
    case (Some v)
    then have "(s, v) \<in> set d" by (rule map_of_SomeD)
    with assms(2) have "py_hashable v" by fastforce
    with JString Some show ?thesis by simp
  qed
qed (use assms(1) in auto)

lemma map_tags_total:
  "\<forall>x\<in>set tags. py_hashable x \<Longrightarrow> \<forall>kv\<in>set d. py_hashable (snd kv) \<Longrightarrow>
   \<exists>S'. map_tags (JObject d) tags S = Inr S'"
proof (induction tags arbitrary: S)
  case Nil
  then show ?case by simp
next
  case (Cons tag tags)
  from Cons.prems have "py_hashable tag" by simp
  from py_get_hashable [OF this Cons.prems(2)] obtain v where
    v: "py_get (JObject d) tag = Inr v" "py_hashable v" by blast
  from Cons.prems have "\<forall>x\<in>set tags. py_hashable x" by simp
  from Cons.IH [OF this Cons.prems(2), of "set_add v S"] v show ?case by simp
qed

text \<open>
  C2. The fallback law. A post has tags that can be iterated and are hashable, as the tags
  of every post are once the vocabulary has been joined, and the values of the mapping are
  hashable, as text is. Then the rewrite of the post succeeds, and a tag \<open>t\<close> of the post
  that is not a key of the mapping is, unchanged, among the tags of the rewritten post.
  The order in which Python iterates a set is not known; all that is asked of it is that it
  yields the elements of the set.
\<close>

theorem fallback_keeps_unmapped_tag:
  assumes "\<forall>S. set (set_iter E S) = set S"
      and "py_getitem post ''tags'' = Inr current_tags"
      and "py_iter current_tags = Inr items"
      and "\<forall>x\<in>set items. py_hashable x"
      and "\<forall>kv\<in>set d. py_hashable (snd kv)"
      and "JString t \<in> set items"
      and "map_of d t = None"
  shows "\<exists>post' new_tags. rewrite_post E (JObject d) post = Inr post'
           \<and> py_getitem post' ''tags'' = Inr (JArray new_tags)
           \<and> JString t \<in> set new_tags"
proof -
  from assms(2) obtain p where p: "post = JObject p" by (cases post) auto
  from map_tags_total [OF assms(4,5), of "[]"] obtain S' where
    S': "map_tags (JObject d) items [] = Inr S'" by blast
  from map_tags_fallback [OF S' assms(6,7)] assms(1) have "JString t \<in> set (set_iter E S')"
    by simp
  moreover have "rewrite_post E (JObject d) post =
                   Inr (JObject (AList.update ''tags'' (JArray (set_iter E S')) p))"
    using assms(2,3) S' p by (simp add: rewrite_post_def)
  moreover have "py_getitem (JObject (AList.update ''tags'' (JArray (set_iter E S')) p)) ''tags''
                   = Inr (JArray (set_iter E S'))"
    by (simp add: update_conv')
  ultimately show ?thesis by blast
qed

lemma py_get_result_fixed:
  assumes "\<forall>s v. map_of d s = Some v \<longrightarrow> py_get (JObject d) v = Inr v"
      and "py_get (JObject d) k = Inr v"
  shows "py_get (JObject d) v = Inr v"
proof (cases k)
  case (JString s)
  with assms show ?thesis by (cases "map_of d s") auto
qed (use assms(2) in \<open>auto split: if_splits\<close>)

lemma map_tags_fixed:
  assumes "\<forall>s v. map_of d s = Some v \<longrightarrow> py_get (JObject d) v = Inr v"
  shows "map_tags (JObject d) tags S = Inr S' \<Longrightarrow>
         \<forall>x\<in>set S. py_get (JObject d) x = Inr x \<and> py_hashable x \<Longrightarrow>
         \<forall>x\<in>set S'. py_get (JObject d) x = Inr x \<and> py_hashable x"
proof (induction tags arbitrary: S)
  case Nil
  then show ?case by simp
next
  case (Cons tag tags)
  from Cons.prems(1) obtain v where
    v: "py_get (JObject d) tag = Inr v" "py_hashable v" and
    rest: "map_tags (JObject d) tags (set_add v S) = Inr S'"
    by (auto split: sum.splits if_splits)
  from py_get_result_fixed [OF assms v(1)] v(2) Cons.prems(2) set_add_elems [of v S]
  have "\<forall>x\<in>set (set_add v S). py_get (JObject d) x = Inr x \<and> py_hashable x" by blast
  from Cons.IH [OF rest this] show ?case .
qed

lemma map_tags_distinct:
  "map_tags m tags S = Inr S' \<Longrightarrow> distinct (map py_key S) \<Longrightarrow> distinct (map py_key S')"
proof (induction tags arbitrary: S)
  case Nil
  then show ?case by simp
next
  case (Cons tag tags)
  from Cons.prems(1) obtain v where
    rest: "map_tags m tags (set_add v S) = Inr S'"
    by (auto split: sum.splits if_splits)
  from Cons.IH [OF rest set_add_distinct [OF Cons.prems(2)]] show ?case .
qed

lemma map_tags_identity:
  "\<forall>x\<in>set L. py_get m x = Inr x \<and> py_hashable x \<Longrightarrow> distinct (map py_key (S @ L)) \<Longrightarrow>
   map_tags m L S = Inr (S @ L)"
proof (induction L arbitrary: S)
  case Nil
  then show ?case by simp
next
  case (Cons x L)
  from Cons.prems(2) have "py_key x \<notin> py_key ` set S" by auto
  then have add: "set_add x S = S @ [x]" by (rule set_add_new)
  from Cons.prems(2) have "distinct (map py_key ((S @ [x]) @ L))" by simp
  moreover from Cons.prems(1) have "\<forall>y\<in>set L. py_get m y = Inr y \<and> py_hashable y" by simp
  ultimately have "map_tags m L (S @ [x]) = Inr ((S @ [x]) @ L)" by (rule Cons.IH [rotated])
  with Cons.prems(1) add show ?case by simp
qed

text \<open>
  C7. The mapping applied twice. Every value of the mapping is a fixed point of the lookup
  with fallback: it is not a key, or it is mapped to itself. Then a post that has been
  rewritten once can be rewritten again, and the second rewrite leaves the set of its tags
  as it was; the list may come out in another order, since a set is iterated in between.
\<close>

theorem mapping_application_idempotent:
  assumes "\<forall>S. mset (set_iter E S) = mset S"
      and "\<forall>s v. map_of d s = Some v \<longrightarrow> py_get (JObject d) v = Inr v"
      and "rewrite_post E (JObject d) post = Inr post1"
  shows "\<exists>post2 tags1 tags2. rewrite_post E (JObject d) post1 = Inr post2
           \<and> py_getitem post1 ''tags'' = Inr (JArray tags1)
           \<and> py_getitem post2 ''tags'' = Inr (JArray tags2)
           \<and> set tags2 = set tags1"
proof -
  from assms(3) obtain current_tags items S1 where
    g: "py_getitem post ''tags'' = Inr current_tags" and
    mt: "map_tags (JObject d) items [] = Inr S1" and
    st: "py_setitem post ''tags'' (JArray (set_iter E S1)) = Inr post1"
    by (auto simp: rewrite_post_def split: sum.splits)
  let ?L = "set_iter E S1"
  from g obtain p where p: "post = JObject p" by (cases post) auto
  with st have post1: "post1 = JObject (AList.update ''tags'' (JArray ?L) p)" by simp
  have g1: "py_getitem post1 ''tags'' = Inr (JArray ?L)"
    by (simp add: post1 update_conv')
  have perm: "mset ?L = mset S1" using assms(1) by simp
  then have sets: "set ?L = set S1" by (rule mset_eq_setD)
  have "\<forall>x\<in>set S1. py_get (JObject d) x = Inr x \<and> py_hashable x"
    using map_tags_fixed [OF assms(2) mt] by simp
  with sets have fixed: "\<forall>x\<in>set ?L. py_get (JObject d) x = Inr x \<and> py_hashable x" by simp
  have "distinct (map py_key S1)" using map_tags_distinct [OF mt] by simp
  moreover have "mset (map py_key ?L) = mset (map py_key S1)" using perm by simp
  ultimately have "distinct (map py_key ?L)" by (metis mset_eq_imp_distinct_iff)
  then have again: "map_tags (JObject d) ?L [] = Inr ?L"
    using map_tags_identity [OF fixed, of "[]"] by simp
  let ?post2 = "JObject (AList.update ''tags'' (JArray (set_iter E ?L)) (AList.update ''tags'' (JArray ?L) p))"
  have r2: "rewrite_post E (JObject d) post1 = Inr ?post2"
    using g1 again by (simp add: rewrite_post_def post1)
  have g2: "py_getitem ?post2 ''tags'' = Inr (JArray (set_iter E ?L))"
    by (simp add: update_conv')
  have "set (set_iter E ?L) = set ?L" using assms(1) by (metis mset_eq_setD)
  with r2 g1 g2 show ?thesis by blast
qed

theorem fallback_keeps_unmapped_tag_witness:
  "py_getitem (JObject [(''caption'', JString ''Trip''),
                        (''tags'', JArray [JString ''Travel'', JString ''Job Search''])]) ''tags''
     = Inr (JArray [JString ''Travel'', JString ''Job Search''])
   \<and> py_iter (JArray [JString ''Travel'', JString ''Job Search''])
     = Inr [JString ''Travel'', JString ''Job Search'']
   \<and> map_of [(''Travel'', JString ''Travel & Adventure'')] ''Job Search'' = None
   \<and> rewrite_post (table_env [] []) (JObject [(''Travel'', JString ''Travel & Adventure'')])
        (JObject [(''caption'', JString ''Trip''),
                  (''tags'', JArray [JString ''Travel'', JString ''Job Search''])])
     = Inr (JObject [(''caption'', JString ''Trip''),
                     (''tags'', JArray [JString ''Job Search'', JString ''Travel & Adventure''])])
   \<and> JString ''Job Search'' \<in> set [JString ''Job Search'', JString ''Travel & Adventure'']"
proof -
  let ?E = "table_env [] []"
  let ?post = "JObject [(''caption'', JString ''Trip''),
                        (''tags'', JArray [JString ''Travel'', JString ''Job Search''])]"
  let ?items = "[JString ''Travel'', JString ''Job Search'']"
  let ?d = "[(''Travel'', JString ''Travel & Adventure'')]"
  have a: "\<forall>S. set (set_iter ?E S) = set S" by simp
  have b: "py_getitem ?post ''tags'' = Inr (JArray ?items)" by simp
  have c: "py_iter (JArray ?items) = Inr ?items" by simp
  have d: "\<forall>x\<in>set ?items. py_hashable x" by simp
  have e: "\<forall>kv\<in>set ?d. py_hashable (snd kv)" by simp
  have f: "JString ''Job Search'' \<in> set ?items" by simp
  have g: "map_of ?d ''Job Search'' = None" by simp
  from fallback_keeps_unmapped_tag [OF a b c d e f g] obtain post' new_tags where
    r: "rewrite_post ?E (JObject ?d) ?post = Inr post'" and
    t: "py_getitem post' ''tags'' = Inr (JArray new_tags)" and
    m: "JString ''Job Search'' \<in> set new_tags"
    by blast
  have ev: "rewrite_post ?E (JObject ?d) ?post
     = Inr (JObject [(''caption'', JString ''Trip''),
                     (''tags'', JArray [JString ''Job Search'', JString ''Travel & Adventure''])])"
    by (simp add: rewrite_post_def set_add_def)
  with r t have "new_tags = [JString ''Job Search'', JString ''Travel & Adventure'']" by auto
  with m b c g ev show ?thesis by simp
qed

theorem mapping_application_idempotent_witness:
  "rewrite_post (table_env [] [])
      (JObject [(''Travel'', JString ''Travel & Adventure''), (''Trip'', JString ''Travel & Adventure'')])
      (JObject [(''caption'', JString ''Trip''),
                (''tags'', JArray [JString ''Travel'', JString ''Job Search'', JString ''Trip''])])
     = Inr (JObject [(''caption'', JString ''Trip''),
                     (''tags'', JArray [JString ''Job Search'', JString ''Travel & Adventure''])])
   \<and> rewrite_post (table_env [] [])
      (JObject [(''Travel'', JString ''Travel & Adventure''), (''Trip'', JString ''Travel & Adventure'')])
      (JObject [(''caption'', JString ''Trip''),
                (''tags'', JArray [JString ''Job Search'', JString ''Travel & Adventure''])])
     = Inr (JObject [(''caption'', JString ''Trip''),
                     (''tags'', JArray [JString ''Travel & Adventure'', JString ''Job Search''])])
   \<and> set [JString ''Travel & Adventure'', JString ''Job Search'']
     = set [JString ''Job Search'', JString ''Travel & Adventure'']"
proof -
  let ?E = "table_env [] []"
  let ?d = "[(''Travel'', JString ''Travel & Adventure''), (''Trip'', JString ''Travel & Adventure'')]"
  let ?post = "JObject [(''caption'', JString ''Trip''),
                (''tags'', JArray [JString ''Travel'', JString ''Job Search'', JString ''Trip''])]"
  let ?post1 = "JObject [(''caption'', JString ''Trip''),
                     (''tags'', JArray [JString ''Job Search'', JString ''Travel & Adventure''])]"
  let ?post2 = "JObject [(''caption'', JString ''Trip''),
                     (''tags'', JArray [JString ''Travel & Adventure'', JString ''Job Search''])]"
  have a: "\<forall>S. mset (set_iter ?E S) = mset S" by simp
  have b: "\<forall>s v. map_of ?d s = Some v \<longrightarrow> py_get (JObject ?d) v = Inr v"
    by (auto split: if_splits)
  have c: "rewrite_post ?E (JObject ?d) ?post = Inr ?post1"
    by (simp add: rewrite_post_def set_add_def)
  from mapping_application_idempotent [OF a b c] obtain post2 tags1 tags2 where
    r: "rewrite_post ?E (JObject ?d) ?post1 = Inr post2" and
    t1: "py_getitem ?post1 ''tags'' = Inr (JArray tags1)" and
    t2: "py_getitem post2 ''tags'' = Inr (JArray tags2)" and
    s: "set tags2 = set tags1"
    by blast
  have ev: "rewrite_post ?E (JObject ?d) ?post1 = Inr ?post2"
    by (simp add: rewrite_post_def set_add_def)
  with r t2 have "tags2 = [JString ''Travel & Adventure'', JString ''Job Search'']" by auto
  moreover from t1 have "tags1 = [JString ''Job Search'', JString ''Travel & Adventure'']" by simp
  ultimately have "set [JString ''Travel & Adventure'', JString ''Job Search'']
     = set [JString ''Job Search'', JString ''Travel & Adventure'']" using s by simp
  with c ev show ?thesis by blast
qed

section \<open>The scenario of two posts\<close>

lemma py_join_strings:
  "\<forall>x\<in>set xs. \<exists>s. x = JString s \<Longrightarrow> \<exists>j. py_join xs = Inr j"
proof (induction xs rule: py_join.induct)
  case (3 s v va)
  then have "\<exists>j. py_join (v # va) = Inr j" by simp
  then show ?case by auto
qed auto

lemma slice_answer_A:
  \<open>py_slice ''{"line_count":1,"language":"English","tags":["Travel","Family"]}'' (py_find (CHR ''{'') ''{"line_count":1,"language":"English","tags":["Travel","Family"]}'') (py_rfind (CHR ''}'') ''{"line_count":1,"language":"English","tags":["Travel","Family"]}'' + 1) = ''{"line_count":1,"language":"English","tags":["Travel","Family"]}''\<close>
  by code_simp

lemma slice_answer_B:
  \<open>py_slice ''{"line_count":1,"language":"English","tags":["Job Search"]}'' (py_find (CHR ''{'') ''{"line_count":1,"language":"English","tags":["Job Search"]}'') (py_rfind (CHR ''}'') ''{"line_count":1,"language":"English","tags":["Job Search"]}'' + 1) = ''{"line_count":1,"language":"English","tags":["Job Search"]}''\<close>
  by code_simp

lemma slice_answer_U:
  \<open>py_slice ''{"Travel":"Travel & Adventure","Family":"Family & Couples"}'' (py_find (CHR ''{'') ''{"Travel":"Travel & Adventure","Family":"Family & Couples"}'') (py_rfind (CHR ''}'') ''{"Travel":"Travel & Adventure","Family":"Family & Couples"}'' + 1) = ''{"Travel":"Travel & Adventure","Family":"Family & Couples"}''\<close>
  by code_simp

text \<open>
  C1. The raw file holds the two posts of the scenario, the extraction chain answers the
  first caption and then the second with the two texts of the scenario, the unification
  chain answers with the mapping of the scenario, the decoder reads the three texts as the
  JSON they are, sets are iterated in some order, and the destination can be opened. Then
  \<open>process_posts\<close> returns after three oracle calls, with nothing printed, and what it
  has written to the destination is the two posts, each with its caption and its metadata:
  the tags of the first are, as a set, Travel & Adventure and Family & Couples, and the
  tags of the second are Job Search alone, which the mapping does not mention.
\<close>

theorem end_to_end_two_posts:
  assumes iter: "\<forall>S. set (set_iter E S) = set S"
      and raw: "files W raw_file_path = Some text"
      and posts: "loads E text =
                    Some (JArray [JObject [(''caption'', JString ''Great trip with family!'')],
                                  JObject [(''caption'', JString ''Job search tips'')]])"
      and answerA: \<open>extract_chain E (length (llm_calls W)) (JString ''Great trip with family!'') = ''{"line_count":1,"language":"English","tags":["Travel","Family"]}''\<close>
      and answerB: \<open>extract_chain E (Suc (length (llm_calls W))) (JString ''Job search tips'') = ''{"line_count":1,"language":"English","tags":["Job Search"]}''\<close>
      and answerU: \<open>\<forall>tags. unify_chain E (Suc (Suc (length (llm_calls W)))) tags = ''{"Travel":"Travel & Adventure","Family":"Family & Couples"}''\<close>
      and decodeA: \<open>loads E ''{"line_count":1,"language":"English","tags":["Travel","Family"]}'' = Some (JObject [(''line_count'', JInt 1), (''language'', JString ''English''), (''tags'', JArray [JString ''Travel'', JString ''Family''])])\<close>
      and decodeB: \<open>loads E ''{"line_count":1,"language":"English","tags":["Job Search"]}'' = Some (JObject [(''line_count'', JInt 1), (''language'', JString ''English''), (''tags'', JArray [JString ''Job Search''])])\<close>
      and decodeU: \<open>loads E ''{"Travel":"Travel & Adventure","Family":"Family & Couples"}'' = Some (JObject [(''Travel'', JString ''Travel & Adventure''), (''Family'', JString ''Family & Couples'')])\<close>
      and writable: "\<not> open_fails E path"
  shows "\<exists>tagsA tagsB joined.
           process_posts E raw_file_path (Some path) W =
             (Returned,
              W\<lparr>files := (files W)(path \<mapsto> dumps E (JArray
                   [JObject [(''caption'', JString ''Great trip with family!''), (''line_count'', JInt 1),
                             (''language'', JString ''English''), (''tags'', JArray tagsA)],
                    JObject [(''caption'', JString ''Job search tips''), (''line_count'', JInt 1),
                             (''language'', JString ''English''), (''tags'', JArray tagsB)]])),
                llm_calls := llm_calls W @ [ExtractCall (JString ''Great trip with family!''),
                                            ExtractCall (JString ''Job search tips''), UnifyCall joined]\<rparr>)
           \<and> set tagsA = {JString ''Travel & Adventure'', JString ''Family & Couples''}
           \<and> set tagsB = {JString ''Job Search''}"
proof -
  let ?A = "JObject [(''caption'', JString ''Great trip with family!''), (''line_count'', JInt 1), (''language'', JString ''English''), (''tags'', JArray [JString ''Travel'', JString ''Family''])]"
  let ?B = "JObject [(''caption'', JString ''Job search tips''), (''line_count'', JInt 1), (''language'', JString ''English''), (''tags'', JArray [JString ''Job Search''])]"
  let ?ps = "[JObject [(''caption'', JString ''Great trip with family!'')], JObject [(''caption'', JString ''Job search tips'')]]"
  let ?W1 = "W\<lparr>llm_calls := llm_calls W @ [ExtractCall (JString ''Great trip with family!''),
                                              ExtractCall (JString ''Job search tips'')]\<rparr>"
  let ?vocab = "[JString ''Travel'', JString ''Family'', JString ''Job Search'']"
  let ?mU = "JObject [(''Travel'', JString ''Travel & Adventure''), (''Family'', JString ''Family & Couples'')]"
  have cA: \<open>clean_json_response E ''{"line_count":1,"language":"English","tags":["Travel","Family"]}'' = Inr (JObject [(''line_count'', JInt 1), (''language'', JString ''English''), (''tags'', JArray [JString ''Travel'', JString ''Family''])])\<close>
    by (simp only: clean_json_response_def Let_def slice_answer_A decodeA option.case)
  have cB: \<open>clean_json_response E ''{"line_count":1,"language":"English","tags":["Job Search"]}'' = Inr (JObject [(''line_count'', JInt 1), (''language'', JString ''English''), (''tags'', JArray [JString ''Job Search''])])\<close>
    by (simp only: clean_json_response_def Let_def slice_answer_B decodeB option.case)
  have cU: \<open>clean_json_response E ''{"Travel":"Travel & Adventure","Family":"Family & Couples"}'' = Inr ?mU\<close>
    by (simp only: clean_json_response_def Let_def slice_answer_U decodeU option.case)
  have load: "load_posts E raw_file_path W = Inr (JArray ?ps)"
    using raw posts by (simp add: load_posts_def)
  have loop: "enrich_loop E ?ps [] W = (Inr [?A, ?B], ?W1)"
    using answerA answerB cA cB
    by (simp add: enrich_post_def extract_metadata_def Let_def dict_or_def)
  have vocab: "collect_tags [?A, ?B] [] = Inr ?vocab"
    by (simp add: set_add_def)
  have "\<forall>x\<in>set (set_iter E ?vocab). \<exists>s. x = JString s" using iter by simp
  from py_join_strings [OF this] obtain joined where
    joined: "py_join (set_iter E ?vocab) = Inr joined" by blast
  let ?W2 = "W\<lparr>llm_calls := llm_calls W @ [ExtractCall (JString ''Great trip with family!''),
                                              ExtractCall (JString ''Job search tips''), UnifyCall joined]\<rparr>"
  have unify: "get_unified_tags E [?A, ?B] ?W1 = (Inr ?mU, ?W2)"
    using vocab joined answerU cU by (simp add: get_unified_tags_def Let_def)
  let ?tagsA = "set_iter E [JString ''Travel & Adventure'', JString ''Family & Couples'']"
  let ?tagsB = "set_iter E [JString ''Job Search'']"
  let ?A' = "JObject [(''caption'', JString ''Great trip with family!''), (''line_count'', JInt 1),
                      (''language'', JString ''English''), (''tags'', JArray ?tagsA)]"
  let ?B' = "JObject [(''caption'', JString ''Job search tips''), (''line_count'', JInt 1),
                      (''language'', JString ''English''), (''tags'', JArray ?tagsB)]"
  have rewrite: "rewrite_posts E ?mU [?A, ?B] = Inr [?A', ?B']"
    by (simp add: rewrite_post_def set_add_def)
  have run: "process_posts E raw_file_path (Some path) W =
               (Returned, ?W2\<lparr>files := (files ?W2)(path \<mapsto> dumps E (JArray [?A', ?B']))\<rparr>)"
    using load loop unify rewrite writable
    by (simp add: process_posts_def dump_posts_def)
  have sA: "set ?tagsA = {JString ''Travel & Adventure'', JString ''Family & Couples''}"
    using iter by simp
  have sB: "set ?tagsB = {JString ''Job Search''}"
    using iter by simp
  from run sA sB show ?thesis by (intro exI [of _ ?tagsA] exI [of _ ?tagsB] exI [of _ joined]) simp
qed

lemma scenario_posts_load:
  \<open>json_loads ''[{"caption": "Great trip with family!"}, {"caption": "Job search tips"}]'' = Some (JArray [JObject [(''caption'', JString ''Great trip with family!'')], JObject [(''caption'', JString ''Job search tips'')]])\<close>
  by code_simp

lemma scenario_answer_A_loads: \<open>json_loads ''{"line_count":1,"language":"English","tags":["Travel","Family"]}'' = Some (JObject [(''line_count'', JInt 1), (''language'', JString ''English''), (''tags'', JArray [JString ''Travel'', JString ''Family''])])\<close>
  by code_simp

lemma scenario_answer_B_loads: \<open>json_loads ''{"line_count":1,"language":"English","tags":["Job Search"]}'' = Some (JObject [(''line_count'', JInt 1), (''language'', JString ''English''), (''tags'', JArray [JString ''Job Search''])])\<close>
  by code_simp

lemma scenario_answer_U_loads: \<open>json_loads ''{"Travel":"Travel & Adventure","Family":"Family & Couples"}'' = Some (JObject [(''Travel'', JString ''Travel & Adventure''), (''Family'', JString ''Family & Couples'')])\<close>
  by code_simp

lemma scenario_dumps:
  \<open>json_dumps (JArray [JObject [(''caption'', JString ''Great trip with family!''), (''line_count'', JInt 1), (''language'', JString ''English''), (''tags'', JArray [JString ''Family & Couples'', JString ''Travel & Adventure''])],
                        JObject [(''caption'', JString ''Job search tips''), (''line_count'', JInt 1), (''language'', JString ''English''), (''tags'', JArray [JString ''Job Search''])]])
   = ''[\<newline>    {\<newline>        "caption": "Great trip with family!",\<newline>        "line_count": 1,\<newline>        "language": "English",\<newline>        "tags": [\<newline>            "Family & Couples",\<newline>            "Travel & Adventure"\<newline>        ]\<newline>    },\<newline>    {\<newline>        "caption": "Job search tips",\<newline>        "line_count": 1,\<newline>        "language": "English",\<newline>        "tags": [\<newline>            "Job Search"\<newline>        ]\<newline>    }\<newline>]''\<close>
  by code_simp

theorem end_to_end_two_posts_witness:
  \<open>process_posts (table_env [(JString ''Great trip with family!'', ''{"line_count":1,"language":"English","tags":["Travel","Family"]}''), (JString ''Job search tips'', ''{"line_count":1,"language":"English","tags":["Job Search"]}'')] ''{"Travel":"Travel & Adventure","Family":"Family & Couples"}'')
      ''data/raw_posts.json'' (Some ''data/processed_posts.json'')
      (one_file ''data/raw_posts.json'' ''[{"caption": "Great trip with family!"}, {"caption": "Job search tips"}]'')
   = (Returned,
      \<lparr>files = [''data/raw_posts.json'' \<mapsto> ''[{"caption": "Great trip with family!"}, {"caption": "Job search tips"}]'',
                ''data/processed_posts.json'' \<mapsto> ''[\<newline>    {\<newline>        "caption": "Great trip with family!",\<newline>        "line_count": 1,\<newline>        "language": "English",\<newline>        "tags": [\<newline>            "Family & Couples",\<newline>            "Travel & Adventure"\<newline>        ]\<newline>    },\<newline>    {\<newline>        "caption": "Job search tips",\<newline>        "line_count": 1,\<newline>        "language": "English",\<newline>        "tags": [\<newline>            "Job Search"\<newline>        ]\<newline>    }\<newline>]''],
       stdout = [],
       llm_calls = [ExtractCall (JString ''Great trip with family!''), ExtractCall (JString ''Job search tips''),
                    UnifyCall ''Job Search,Family,Travel'']\<rparr>)
   \<and> set [JString ''Family & Couples'', JString ''Travel & Adventure'']
       = {JString ''Travel & Adventure'', JString ''Family & Couples''}\<close>
proof -
  let ?E = \<open>table_env [(JString ''Great trip with family!'', ''{"line_count":1,"language":"English","tags":["Travel","Family"]}''), (JString ''Job search tips'', ''{"line_count":1,"language":"English","tags":["Job Search"]}'')] ''{"Travel":"Travel & Adventure","Family":"Family & Couples"}''\<close>
  let ?W = \<open>one_file ''data/raw_posts.json'' ''[{"caption": "Great trip with family!"}, {"caption": "Job search tips"}]''\<close>
  have a: "\<forall>S. set (set_iter ?E S) = set S" by simp
  have b: \<open>files ?W ''data/raw_posts.json'' = Some ''[{"caption": "Great trip with family!"}, {"caption": "Job search tips"}]''\<close> by (simp add: one_file_def)
  have c: \<open>loads ?E ''[{"caption": "Great trip with family!"}, {"caption": "Job search tips"}]'' = Some (JArray [JObject [(''caption'', JString ''Great trip with family!'')], JObject [(''caption'', JString ''Job search tips'')]])\<close>
    by (simp add: scenario_posts_load)
  have d: \<open>extract_chain ?E (length (llm_calls ?W)) (JString ''Great trip with family!'') = ''{"line_count":1,"language":"English","tags":["Travel","Family"]}''\<close> by simp
  have e: \<open>extract_chain ?E (Suc (length (llm_calls ?W))) (JString ''Job search tips'') = ''{"line_count":1,"language":"English","tags":["Job Search"]}''\<close> by simp
  have f: \<open>\<forall>tags. unify_chain ?E (Suc (Suc (length (llm_calls ?W)))) tags = ''{"Travel":"Travel & Adventure","Family":"Family & Couples"}''\<close> by simp
  have g: \<open>loads ?E ''{"line_count":1,"language":"English","tags":["Travel","Family"]}'' = Some (JObject [(''line_count'', JInt 1), (''language'', JString ''English''), (''tags'', JArray [JString ''Travel'', JString ''Family''])])\<close> by (simp add: scenario_answer_A_loads)
  have h: \<open>loads ?E ''{"line_count":1,"language":"English","tags":["Job Search"]}'' = Some (JObject [(''line_count'', JInt 1), (''language'', JString ''English''), (''tags'', JArray [JString ''Job Search''])])\<close> by (simp add: scenario_answer_B_loads)
  have i: \<open>loads ?E ''{"Travel":"Travel & Adventure","Family":"Family & Couples"}'' = Some (JObject [(''Travel'', JString ''Travel & Adventure''), (''Family'', JString ''Family & Couples'')])\<close> by (simp add: scenario_answer_U_loads)
  have j: "\<not> open_fails ?E ''data/processed_posts.json''" by simp
  from end_to_end_two_posts [OF a b c d e f g h i j] obtain tagsA tagsB joined where
    run: "process_posts ?E ''data/raw_posts.json'' (Some ''data/processed_posts.json'') ?W =
             (Returned,
              ?W\<lparr>files := (files ?W)(''data/processed_posts.json'' \<mapsto> dumps ?E (JArray
                   [JObject [(''caption'', JString ''Great trip with family!''), (''line_count'', JInt 1),
                             (''language'', JString ''English''), (''tags'', JArray tagsA)],
                    JObject [(''caption'', JString ''Job search tips''), (''line_count'', JInt 1),
                             (''language'', JString ''English''), (''tags'', JArray tagsB)]])),
                llm_calls := llm_calls ?W @ [ExtractCall (JString ''Great trip with family!''),
                                            ExtractCall (JString ''Job search tips''), UnifyCall joined]\<rparr>)"
    and sA: "set tagsA = {JString ''Travel & Adventure'', JString ''Family & Couples''}"
    and sB: "set tagsB = {JString ''Job Search''}"
    by blast
  have cA: \<open>clean_json_response ?E ''{"line_count":1,"language":"English","tags":["Travel","Family"]}'' = Inr (JObject [(''line_count'', JInt 1), (''language'', JString ''English''), (''tags'', JArray [JString ''Travel'', JString ''Family''])])\<close>
    by (simp only: clean_json_response_def Let_def slice_answer_A g option.case)
  have cB: \<open>clean_json_response ?E ''{"line_count":1,"language":"English","tags":["Job Search"]}'' = Inr (JObject [(''line_count'', JInt 1), (''language'', JString ''English''), (''tags'', JArray [JString ''Job Search''])])\<close>
    by (simp only: clean_json_response_def Let_def slice_answer_B h option.case)
  have cU: \<open>clean_json_response ?E ''{"Travel":"Travel & Adventure","Family":"Family & Couples"}'' = Inr (JObject [(''Travel'', JString ''Travel & Adventure''), (''Family'', JString ''Family & Couples'')])\<close>
    by (simp only: clean_json_response_def Let_def slice_answer_U i option.case)
  have ev: \<open>process_posts ?E ''data/raw_posts.json'' (Some ''data/processed_posts.json'') ?W
   = (Returned,
      \<lparr>files = [''data/raw_posts.json'' \<mapsto> ''[{"caption": "Great trip with family!"}, {"caption": "Job search tips"}]'',
                ''data/processed_posts.json'' \<mapsto> ''[\<newline>    {\<newline>        "caption": "Great trip with family!",\<newline>        "line_count": 1,\<newline>        "language": "English",\<newline>        "tags": [\<newline>            "Family & Couples",\<newline>            "Travel & Adventure"\<newline>        ]\<newline>    },\<newline>    {\<newline>        "caption": "Job search tips",\<newline>        "line_count": 1,\<newline>        "language": "English",\<newline>        "tags": [\<newline>            "Job Search"\<newline>        ]\<newline>    }\<newline>]''],
       stdout = [],
       llm_calls = [ExtractCall (JString ''Great trip with family!''), ExtractCall (JString ''Job search tips''),
                    UnifyCall ''Job Search,Family,Travel'']\<rparr>)\<close>
    using cA cB cU
    by (simp add: process_posts_def load_posts_def one_file_def scenario_posts_load
                  enrich_post_def extract_metadata_def Let_def dict_or_def
                  get_unified_tags_def set_add_def rewrite_post_def dump_posts_def
                  scenario_dumps)
  from run ev sA show ?thesis by auto
qed

section \<open>The merge of a post and its metadata\<close>

text \<open>
  A post that already has a \<open>tags\<close> field, and an answer of the oracle with other tags:
  the enriched post carries the oracle's tags, not its own.
\<close>

theorem merge_precedence_counterexample:
  \<open>py_getitem (JObject [(''caption'', JString ''Great trip''), (''tags'', JArray [JString ''Mine''])]) ''tags''
     = Inr (JArray [JString ''Mine''])
   \<and> fst (enrich_post
          (table_env [(JString ''Great trip'', ''{"line_count":1,"language":"English","tags":["Travel"]}'')] [])
          (JObject [(''caption'', JString ''Great trip''), (''tags'', JArray [JString ''Mine''])])
          [] (one_file [] []))
     = Inr [JObject [(''caption'', JString ''Great trip''), (''tags'', JArray [JString ''Travel'']),
                     (''line_count'', JInt 1), (''language'', JString ''English'')]]\<close>
  by code_simp

text \<open>
  C9, as the code has it. A post with a caption whose extraction returns a metadata
  dictionary is appended to the enriched posts as \<open>post | metadata\<close>, and there the right
  operand wins: on a key that the post and the metadata share the merged post has the value
  of the metadata, and the value of the post is kept only on the keys the metadata does not
  have.
\<close>

theorem merge_takes_metadata_value:
  assumes "distinct (map fst metadata)"
      and "map_of post ''caption'' = Some caption"
      and "extract_metadata E caption W = (Inr (JObject metadata), W1)"
  shows "enrich_post E (JObject post) enriched_posts W =
           (Inr (enriched_posts @ [JObject (dict_or post metadata)]), W1)
         \<and> map_of (dict_or post metadata) k =
             (case map_of metadata k of Some v \<Rightarrow> Some v | None \<Rightarrow> map_of post k)"
proof -
  have "py_getitem (JObject post) ''caption'' = Inr caption" using assms(2) by simp
  from py_getitem_contains [OF this] assms(2,3)
  have "enrich_post E (JObject post) enriched_posts W =
           (Inr (enriched_posts @ [JObject (dict_or post metadata)]), W1)"
    by (simp add: enrich_post_def)
  with map_of_dict_or [OF assms(1)] show ?thesis by simp
qed

theorem merge_takes_metadata_value_witness:
  \<open>enrich_post
      (table_env [(JString ''Great trip'', ''{"line_count":1,"language":"English","tags":["Travel"]}'')] [])
      (JObject [(''caption'', JString ''Great trip''), (''tags'', JArray [JString ''Mine''])])
      [] (one_file [] [])
     = (Inr [JObject [(''caption'', JString ''Great trip''), (''tags'', JArray [JString ''Travel'']),
                      (''line_count'', JInt 1), (''language'', JString ''English'')]],
        \<lparr>files = [[] \<mapsto> []], stdout = [], llm_calls = [ExtractCall (JString ''Great trip'')]\<rparr>)
   \<and> map_of (dict_or [(''caption'', JString ''Great trip''), (''tags'', JArray [JString ''Mine''])]
                      [(''line_count'', JInt 1), (''language'', JString ''English''),
                       (''tags'', JArray [JString ''Travel''])]) ''tags''
       = Some (JArray [JString ''Travel''])
   \<and> map_of (dict_or [(''caption'', JString ''Great trip''), (''tags'', JArray [JString ''Mine''])]
                      [(''line_count'', JInt 1), (''language'', JString ''English''),
                       (''tags'', JArray [JString ''Travel''])]) ''caption''
       = Some (JString ''Great trip'')\<close>
proof -
  let ?E = \<open>table_env [(JString ''Great trip'', ''{"line_count":1,"language":"English","tags":["Travel"]}'')] []\<close>
  let ?post = "[(''caption'', JString ''Great trip''), (''tags'', JArray [JString ''Mine''])]"
  let ?md = "[(''line_count'', JInt 1), (''language'', JString ''English''),
              (''tags'', JArray [JString ''Travel''])]"
  let ?W1 = "\<lparr>files = [[] \<mapsto> []], stdout = [], llm_calls = [ExtractCall (JString ''Great trip'')]\<rparr>"
  have a: "distinct (map fst ?md)" by simp
  have b: "map_of ?post ''caption'' = Some (JString ''Great trip'')" by simp
  have c: "extract_metadata ?E (JString ''Great trip'') (one_file [] []) = (Inr (JObject ?md), ?W1)"
    by (simp add: extract_metadata_def Let_def one_file_def sunset_parses)
  from merge_takes_metadata_value [OF a b c, of "[]" "''tags''"]
       merge_takes_metadata_value [OF a b c, of "[]" "''caption''"]
  show ?thesis by (simp add: dict_or_def)
qed

end
